theory Spec2Isabelle
  imports Main
begin

section \<open>guiqwt.qthelpers: the open and save dialogs for image files\<close>

text \<open>
  The module holds three functions, \<open>exec_image_save_dialog\<close>,
  \<open>exec_image_open_dialog\<close> and the generator \<open>exec_images_open_dialog\<close>. Each one
  calls a toolkit dialog, then the image I/O layer (\<open>io.imread\<close>, \<open>io.imwrite\<close>), and
  reports a failure in a message box. The collaborators are not part of the module: they
  are the fields of the record \<open>env\<close> below, and every theorem holds for each value of
  them. What the functions do to the world (the three standard streams of \<open>sys\<close>, the
  calls they make, in order) is threaded through a record \<open>world\<close>.
\<close>

subsection \<open>Python values\<close>

text \<open>
  Exceptions carry their class and the text \<open>str(msg)\<close>. \<open>KeyboardInterrupt\<close> and
  \<open>SystemExit\<close> derive from \<open>BaseException\<close> only, so \<open>except Exception\<close> lets them
  through.
\<close>

datatype exc_class = NameError | TypeError | RuntimeError | IOError | KeyboardInterrupt | SystemExit

datatype py_exc = PyExc (exc_class: exc_class) (exc_str: string)

fun isinstance_Exception :: "py_exc \<Rightarrow> bool" where
  "isinstance_Exception (PyExc KeyboardInterrupt s) = False"
| "isinstance_Exception (PyExc SystemExit s) = False"
| "isinstance_Exception (PyExc c s) = True"

fun isinstance_TypeError :: "py_exc \<Rightarrow> bool" where
  "isinstance_TypeError (PyExc TypeError s) = True"
| "isinstance_TypeError (PyExc c s) = False"

text \<open>
  What a call gives its caller: the value it returns, or the exception that leaves it.
\<close>

datatype 'a outcome = Returned 'a | Propagated py_exc

text \<open>
  A numpy dtype, as far as the module looks at it: byte order, kind character and item
  size. The byte order is the resolved one, which is what \<open>dtype.str\<close> prints
  (\<open><\<close>, \<open>>\<close> or \<open>|\<close> for one-byte items).
\<close>

datatype byte_order = LittleEndian | BigEndian | NotApplicable

datatype numpy_dtype = DType (byteorder: byte_order) (kind: char) (itemsize: nat)

fun byte_order_char :: "byte_order \<Rightarrow> char" where
  "byte_order_char LittleEndian = CHR ''<''"
| "byte_order_char BigEndian = CHR ''>''"
| "byte_order_char NotApplicable = CHR ''|''"

fun string_of_nat :: "nat \<Rightarrow> string" where
  "string_of_nat n =
     (if n < 10 then [''0123456789'' ! n]
      else string_of_nat (n div 10) @ [''0123456789'' ! (n mod 10)])"

definition dtype_str :: "numpy_dtype \<Rightarrow> string" where
  "dtype_str d = byte_order_char (byteorder d) # kind d # string_of_nat (itemsize d)"

text \<open>\<open>dtype.newbyteorder()\<close>: the default argument swaps the byte order.\<close>

fun newbyteorder :: "numpy_dtype \<Rightarrow> numpy_dtype" where
  "newbyteorder (DType LittleEndian k n) = DType BigEndian k n"
| "newbyteorder (DType BigEndian k n) = DType LittleEndian k n"
| "newbyteorder (DType NotApplicable k n) = DType NotApplicable k n"

text \<open>
  The entries of \<open>dtype_list\<close> (\<open>int16\<close>, \<open>int32\<close>, \<open>uint16\<close>, \<open>uint32\<close>) and
  of \<open>offset_list\<close>, the choices of the two \<open>ChoiceItem\<close>s of the raw-parameter
  forms, and the strings the offset choices stand for.
\<close>

datatype dtype_choice = Int16 | Int32 | UInt16 | UInt32

datatype offset_choice = From_end | From_end_4k | Auto

fun offset_name :: "offset_choice \<Rightarrow> string" where
  "offset_name From_end = ''from_end''"
| "offset_name From_end_4k = ''from_end_4k''"
| "offset_name Auto = ''auto''"

text \<open>
  \<open>np.dtype(name)\<close> for the names the module uses. The first argument is the byte
  order of the machine (\<open>sys.byteorder\<close>, little or big): a multi-byte dtype made from
  its name has it.
\<close>

datatype endianness = Little | Big

fun native_order :: "endianness \<Rightarrow> byte_order" where
  "native_order Little = LittleEndian"
| "native_order Big = BigEndian"

fun np_dtype :: "endianness \<Rightarrow> dtype_choice \<Rightarrow> numpy_dtype" where
  "np_dtype machine Int16 = DType (native_order machine) (CHR ''i'') 2"
| "np_dtype machine Int32 = DType (native_order machine) (CHR ''i'') 4"
| "np_dtype machine UInt16 = DType (native_order machine) (CHR ''u'') 2"
| "np_dtype machine UInt32 = DType (native_order machine) (CHR ''u'') 4"

definition np_uint8 :: "numpy_dtype" where
  "np_uint8 = DType NotApplicable (CHR ''u'') 1"

definition np_uint16 :: "endianness \<Rightarrow> numpy_dtype" where
  "np_uint16 machine = np_dtype machine UInt16"

text \<open>
  The image array: its dtype and its buffer of bytes. The module reads \<open>data.dtype\<close>
  only and hands the array on.
\<close>

datatype ndarray = NDArray (data_dtype: numpy_dtype) (buffer: "nat list")

text \<open>
  The values the module stores in dictionaries and in \<open>sys\<close>: \<open>None\<close>, booleans,
  integers, strings, dtypes, and objects it never looks into (a pydicom dataset, a stream),
  known by a name.
\<close>

datatype pyval = PyNone | PyBool bool | PyInt int | PyStr string | PyDtype numpy_dtype | PyObject string

type_synonym pydict = "(string \<times> pyval) list"

text \<open>\<open>str.lower()\<close>, on the ASCII letters.\<close>

definition lower_char :: "char \<Rightarrow> char" where
  "lower_char c =
     (case map_of (zip ''ABCDEFGHIJKLMNOPQRSTUVWXYZ'' ''abcdefghijklmnopqrstuvwxyz'') c of
        Some l \<Rightarrow> l
      | None \<Rightarrow> c)"

definition lower :: "string \<Rightarrow> string" where
  "lower s = map lower_char s"

text \<open>
  \<open>template % arg\<close> for one string argument: the first \<open>%s\<close> of the template is
  replaced by the argument. The templates of the module are the catalogue's entries for
  \<open>"%s could not be written:"\<close> and \<open>"%s could not be opened:"\<close>, which carry that
  one conversion. A template with no \<open>%s\<close>, for which Python raises \<open>TypeError\<close>,
  is not an entry of a well-formed catalogue; \<open>percent_s\<close> leaves it as it is.
\<close>

fun percent_s :: "string \<Rightarrow> string \<Rightarrow> string" where
  "percent_s [] arg = []"
| "percent_s [c] arg = [c]"
| "percent_s (c # d # cs) arg =
     (if c = CHR ''%'' \<and> d = CHR ''s'' then arg @ cs else c # percent_s (d # cs) arg)"

subsection \<open>The raw-parameter forms\<close>

text \<open>
  The two \<open>DataSet\<close> classes declared inside \<open>exec_images_open_dialog\<close>:
  \<open>OpenParam\<close> for one file, \<open>nOpenParam\<close> for several, which adds \<open>one4all\<close>.
  \<open>param.edit()\<close> shows the form; it gives the values entered, or nothing when the form
  is cancelled.
\<close>

record OpenParam =
  dtype :: dtype_choice
  mode :: offset_choice
  endian_switch :: bool
  manual_switch :: bool
  m_offset :: int

record nOpenParam = OpenParam +
  one4all :: bool

subsection \<open>The world: standard streams and the calls made\<close>

record std_streams =
  sys_stdin :: pyval
  sys_stdout :: pyval
  sys_stderr :: pyval

datatype event =
    GetSaveFileName string string numpy_dtype pyval
  | GetOpenFileName string string "numpy_dtype option"
  | GetOpenFileNames string string "numpy_dtype option"
  | ImWrite string ndarray pydict
  | ImRead string bool "pydict option"
  | PrintExc
  | Critical string string
  | EditOpenParam string "OpenParam option"
  | EditnOpenParam string "nOpenParam option"

text \<open>
  \<open>trace\<close> lists the calls to the collaborators in the order they are made, each with
  the standard streams in place when it is made; \<open>n_edits\<close> counts the forms shown.
\<close>

record world =
  sys :: std_streams
  trace :: "(event \<times> std_streams) list"
  n_edits :: nat

definition init_world :: "std_streams \<Rightarrow> world" where
  "init_world s = \<lparr>sys = s, trace = [], n_edits = 0\<rparr>"

definition emit :: "event \<Rightarrow> world \<Rightarrow> world" where
  "emit ev w = w\<lparr>trace := trace w @ [(ev, sys w)]\<rparr>"

definition events :: "world \<Rightarrow> event list" where
  "events w = map fst (trace w)"

subsection \<open>The collaborators\<close>

text \<open>
  \<^item> \<open>tr\<close> is the catalogue lookup \<open>_\<close> of \<open>guiqwt.config\<close>;
  \<^item> \<open>splitext\<close>, \<open>basename\<close>, \<open>isfile\<close> are those of \<open>os.path\<close>;
  \<^item> \<open>native\<close> is the byte order of the machine;
  \<^item> \<open>getsavefilename title basedir dtype template\<close> stands for the call
    \<open>getsavefilename(parent, title, basedir, io.iohandler.get_filters('save', dtype=dtype,
    template=template))\<close>, and \<open>getopenfilename\<close>, \<open>getopenfilenames\<close> likewise with
    \<open>get_filters("load", dtype=dtype)\<close>. A dialog is given the standard streams it finds
    and leaves them as it likes; it gives the name chosen (the empty string, or no name,
    when it is cancelled), or it raises;
  \<^item> \<open>imread filename to_grayscale params\<close> and \<open>imwrite filename data kwargs\<close> are
    the image I/O layer: each returns or raises (\<open>params\<close> is \<open>None\<close> for a call
    that gives no \<open>params\<close> keyword);
  \<^item> \<open>edit_OpenParam n\<close> and \<open>edit_nOpenParam n\<close> are what the user enters in the form
    shown after \<open>n\<close> earlier forms.
  The parent widget is handed to the toolkit as it comes and is left out. The other
  calls (\<open>_\<close>, \<open>os.path\<close>, \<open>param.edit()\<close>, \<open>traceback.print_exc()\<close>,
  \<open>QMessageBox.critical\<close>) are taken to return; only the dialogs and the I/O layer,
  around which the module has its \<open>try\<close> blocks, may raise.
\<close>

record env =
  tr :: "string \<Rightarrow> string"
  splitext :: "string \<Rightarrow> string \<times> string"
  basename :: "string \<Rightarrow> string"
  isfile :: "string \<Rightarrow> bool"
  native :: endianness
  getsavefilename ::
    "string \<Rightarrow> string \<Rightarrow> numpy_dtype \<Rightarrow> pyval \<Rightarrow> std_streams \<Rightarrow> (py_exc + string) \<times> std_streams"
  getopenfilename ::
    "string \<Rightarrow> string \<Rightarrow> numpy_dtype option \<Rightarrow> std_streams \<Rightarrow> (py_exc + string) \<times> std_streams"
  getopenfilenames ::
    "string \<Rightarrow> string \<Rightarrow> numpy_dtype option \<Rightarrow> std_streams \<Rightarrow> (py_exc + string list) \<times> std_streams"
  imread :: "string \<Rightarrow> bool \<Rightarrow> pydict option \<Rightarrow> py_exc + ndarray"
  imwrite :: "string \<Rightarrow> ndarray \<Rightarrow> pydict \<Rightarrow> py_exc + unit"
  edit_OpenParam :: "nat \<Rightarrow> OpenParam option"
  edit_nOpenParam :: "nat \<Rightarrow> nOpenParam option"

text \<open>A dialog call: logged with the streams it finds, then it sets the streams.\<close>

definition call_dialog ::
  "event \<Rightarrow> (std_streams \<Rightarrow> (py_exc + 'a) \<times> std_streams) \<Rightarrow> world \<Rightarrow> (py_exc + 'a) \<times> world" where
  "call_dialog ev dlg w =
     (let w1 = emit ev w;
          (r, s) = dlg (sys w1)
      in (r, w1\<lparr>sys := s\<rparr>))"

text \<open>
  The \<open>except Exception as msg\<close> block, the same in the three functions but for the
  message: the traceback is printed, then \<open>QMessageBox.critical\<close> is shown with the title
  \<open>_("Error") if app_name is None else app_name\<close> and the text
  \<open>(_(msgid) % osp.basename(filename)) + "\n" + str(msg)\<close>.
\<close>

definition error_title :: "env \<Rightarrow> string option \<Rightarrow> string" where
  "error_title e app_name = (case app_name of None \<Rightarrow> tr e ''Error'' | Some a \<Rightarrow> a)"

definition error_text :: "env \<Rightarrow> string \<Rightarrow> string \<Rightarrow> py_exc \<Rightarrow> string" where
  "error_text e msgid filename msg =
     percent_s (tr e msgid) (basename e filename) @ [CHR 0x0A] @ exc_str msg"

definition show_error :: "env \<Rightarrow> string option \<Rightarrow> string \<Rightarrow> string \<Rightarrow> py_exc \<Rightarrow> world \<Rightarrow> world" where
  "show_error e app_name msgid filename msg w =
     emit (Critical (error_title e app_name) (error_text e msgid filename msg)) (emit PrintExc w)"

subsection \<open>exec_image_save_dialog\<close>

text \<open>
  The name \<open>ext\<close> is read on lines 80 to 84 and assigned nowhere in the function or in
  the module: reading it raises \<open>NameError\<close>.
\<close>

definition name_ext :: "py_exc + string" where
  "name_ext = Inl (PyExc NameError ''name 'ext' is not defined'')"

text \<open>
  Line 80: \<open>convert == False or ext==".txt" or ext==".csv" or ext==".asc" or ext==".dat"
  or ext==".npy"\<close>. The \<open>or\<close> stops at the first true operand, so \<open>ext\<close> is read only
  when \<open>convert\<close> is true.
\<close>

definition plain_write :: "bool \<Rightarrow> py_exc + bool" where
  "plain_write convert =
     (if convert = False then Inr True
      else case name_ext of
             Inl exn \<Rightarrow> Inl exn
           | Inr ext \<Rightarrow>
               Inr (ext = ''.txt'' \<or> ext = ''.csv'' \<or> ext = ''.asc'' \<or> ext = ''.dat'' \<or> ext = ''.npy''))"

text \<open>Line 84: \<open>ext ==".tif" or ext==".tiff" or ext==".dcm"\<close>.\<close>

definition wide_write :: "py_exc + bool" where
  "wide_write =
     (case name_ext of
        Inl exn \<Rightarrow> Inl exn
      | Inr ext \<Rightarrow> Inr (ext = ''.tif'' \<or> ext = ''.tiff'' \<or> ext = ''.dcm''))"

definition call_imwrite :: "env \<Rightarrow> string \<Rightarrow> ndarray \<Rightarrow> pydict \<Rightarrow> world \<Rightarrow> (py_exc + unit) \<times> world" where
  "call_imwrite e filename data kwargs w =
     (imwrite e filename data kwargs, emit (ImWrite filename data kwargs) w)"

text \<open>Lines 80 to 88, the body of the \<open>try\<close>.\<close>

definition try_write ::
  "env \<Rightarrow> ndarray \<Rightarrow> bool \<Rightarrow> string \<Rightarrow> pydict \<Rightarrow> world \<Rightarrow> (py_exc + unit) \<times> world" where
  "try_write e data convert filename kwargs w =
     (case plain_write convert of
        Inl exn \<Rightarrow> (Inl exn, w)
      | Inr True \<Rightarrow> call_imwrite e filename data kwargs w
      | Inr False \<Rightarrow>
          (case wide_write of
             Inl exn \<Rightarrow> (Inl exn, w)
           | Inr wide \<Rightarrow>
               (let dt = (if wide then np_uint16 (native e) else np_uint8)
                in call_imwrite e filename data
                     ([(''max_range'', PyBool True), (''dtype'', PyDtype dt)] @ kwargs) w)))"

text \<open>Lines 76 to 78.\<close>

definition save_kwargs :: "env \<Rightarrow> pyval \<Rightarrow> string \<Rightarrow> pydict" where
  "save_kwargs e template filename =
     (if lower (snd (splitext e filename)) = ''.dcm'' then [(''template'', template)] else [])"

text \<open>Lines 60 to 65: \<open>convert\<close>.\<close>

definition convert_of :: "ndarray \<Rightarrow> bool" where
  "convert_of data =
     (if dtype_str (data_dtype data) = ''<f8'' \<or> dtype_str (data_dtype data) = ''<f4''
      then True else False)"

text \<open>
  Lines 74 to 101, once the dialog has given \<open>filename\<close>. With an empty name the
  function falls off its end, which returns \<open>None\<close>.
\<close>

definition save_chosen ::
  "env \<Rightarrow> ndarray \<Rightarrow> pyval \<Rightarrow> string option \<Rightarrow> string \<Rightarrow> world \<Rightarrow> string option outcome \<times> world" where
  "save_chosen e data template app_name filename w =
     (if filename \<noteq> [] then
        (let kwargs = save_kwargs e template filename
         in case try_write e data (convert_of data) filename kwargs w of
              (Inr u, w1) \<Rightarrow> (Returned (Some filename), w1)
            | (Inl msg, w1) \<Rightarrow>
                if isinstance_Exception msg
                then (Returned None,
                      show_error e app_name ''%s could not be written:'' filename msg w1)
                else (Propagated msg, w1))
      else (Returned None, w))"

text \<open>
  Lines 58 to 73: the streams are saved, \<open>sys.stdout\<close> is set to \<open>None\<close>, the dialog
  is called, and called again with the base directory \<open>""\<close> when the first call raises
  \<open>TypeError\<close>; the streams are put back after the call that returns.
\<close>

definition save_dialog ::
  "env \<Rightarrow> ndarray \<Rightarrow> pyval \<Rightarrow> string \<Rightarrow> std_streams \<Rightarrow> (py_exc + string) \<times> world" where
  "save_dialog e data template basedir s0 =
     (let saved = s0;
          w1 = (init_world s0)\<lparr>sys := s0\<lparr>sys_stdout := PyNone\<rparr>\<rparr>;
          title = tr e ''Save as''
      in case call_dialog (GetSaveFileName title basedir (data_dtype data) template)
                (getsavefilename e title basedir (data_dtype data) template) w1 of
           (Inr filename, w2) \<Rightarrow> (Inr filename, w2\<lparr>sys := saved\<rparr>)
         | (Inl exn, w2) \<Rightarrow>
             if isinstance_TypeError exn
             then (case call_dialog (GetSaveFileName title [] (data_dtype data) template)
                          (getsavefilename e title [] (data_dtype data) template) w2 of
                     (Inr filename, w3) \<Rightarrow> (Inr filename, w3\<lparr>sys := saved\<rparr>)
                   | (Inl exn2, w3) \<Rightarrow> (Inl exn2, w3))
             else (Inl exn, w2))"

definition exec_image_save_dialog ::
  "env \<Rightarrow> ndarray \<Rightarrow> pyval \<Rightarrow> string \<Rightarrow> string option \<Rightarrow> std_streams \<Rightarrow> string option outcome \<times> world" where
  "exec_image_save_dialog e data template basedir app_name s0 =
     (case save_dialog e data template basedir s0 of
        (Inr filename, w) \<Rightarrow> save_chosen e data template app_name filename w
      | (Inl exn, w) \<Rightarrow> (Propagated exn, w))"

subsection \<open>exec_image_open_dialog\<close>

text \<open>
  Lines 117 to 136. Nothing looks at \<open>filename\<close> between the dialog and
  \<open>io.imread\<close>, which is called without a \<open>params\<close> keyword.
\<close>

definition exec_image_open_dialog ::
  "env \<Rightarrow> string \<Rightarrow> string option \<Rightarrow> bool \<Rightarrow> numpy_dtype option \<Rightarrow> std_streams
     \<Rightarrow> (string \<times> ndarray) option outcome \<times> world" where
  "exec_image_open_dialog e basedir app_name to_grayscale dtype0 s0 =
     (let saved = s0;
          w1 = (init_world s0)\<lparr>sys := s0\<lparr>sys_stdout := PyNone\<rparr>\<rparr>;
          title = tr e ''Open''
      in case call_dialog (GetOpenFileName title basedir dtype0)
                (getopenfilename e title basedir dtype0) w1 of
           (Inl exn, w2) \<Rightarrow> (Propagated exn, w2)
         | (Inr filename, w2) \<Rightarrow>
             (let w3 = emit (ImRead filename to_grayscale None) (w2\<lparr>sys := saved\<rparr>)
              in case imread e filename to_grayscale None of
                   Inr data \<Rightarrow> (Returned (Some (filename, data)), w3)
                 | Inl msg \<Rightarrow>
                     if isinstance_Exception msg
                     then (Returned None,
                           show_error e app_name ''%s could not be opened:'' filename msg w3)
                     else (Propagated msg, w3)))"

subsection \<open>exec_images_open_dialog\<close>

text \<open>
  Lines 160 to 167: \<open>RAW\<close>, from the first name selected. The extension is compared
  as it is written, without \<open>lower()\<close>.
\<close>

definition is_raw :: "env \<Rightarrow> string \<Rightarrow> bool" where
  "is_raw e first =
     (case splitext e first of
        (base, ext) \<Rightarrow>
          if ext = ''.bin'' \<or> ext = ''.raw'' \<or> ext = ''.img'' \<or> ext = ''.imd''
          then (if isfile e (base @ ''.inf'') then False else True)
          else False)"

text \<open>
  Lines 221 to 228, and again lines 245 to 252: the dictionary \<open>params\<close> made from a
  form.
\<close>

definition raw_params :: "endianness \<Rightarrow> 'a OpenParam_scheme \<Rightarrow> pydict" where
  "raw_params machine param =
     (let offset = (if manual_switch param = True then PyInt (m_offset param)
                    else PyStr (offset_name (mode param)));
          dt = np_dtype machine (dtype param);
          dt1 = (if endian_switch param = False then newbyteorder dt else dt)
      in [(''offset'', offset), (''dtype'', PyDtype dt1)])"

text \<open>\<open>param.edit()\<close> on a fresh \<open>OpenParam\<close> or \<open>nOpenParam\<close>.\<close>

definition OpenParam_edit :: "env \<Rightarrow> world \<Rightarrow> OpenParam option \<times> world" where
  "OpenParam_edit e w =
     (let r = edit_OpenParam e (n_edits w)
      in (r, emit (EditOpenParam (tr e ''Open Raw Image'') r) (w\<lparr>n_edits := Suc (n_edits w)\<rparr>)))"

definition nOpenParam_edit :: "env \<Rightarrow> world \<Rightarrow> nOpenParam option \<times> world" where
  "nOpenParam_edit e w =
     (let r = edit_nOpenParam e (n_edits w)
      in (r, emit (EditnOpenParam (tr e ''Open Raw Images'') r) (w\<lparr>n_edits := Suc (n_edits w)\<rparr>)))"

text \<open>
  Lines 159 to 229, before the loop: \<open>RAW\<close>, \<open>params\<close> and \<open>one4all\<close>, or nothing
  when the form is cancelled (the \<open>return\<close> of line 220). With no file selected the
  names \<open>RAW\<close> and \<open>params\<close> stay unbound and the loop, which alone reads them, has
  nothing to run over; without \<open>RAW\<close> the name \<open>one4all\<close> stays unbound and is not read.
  The values given for them in these two cases are never looked at.
\<close>

definition raw_setup :: "env \<Rightarrow> string list \<Rightarrow> world \<Rightarrow> (bool \<times> pydict \<times> bool) option \<times> world" where
  "raw_setup e filenames w =
     (case filenames of
        [] \<Rightarrow> (Some (False, [], False), w)
      | first # others \<Rightarrow>
          (let RAW = is_raw e first;
               params = []
           in if RAW = True then
                (let for_all = False
                 in if length filenames > 1 then
                      (case nOpenParam_edit e w of
                         (None, w1) \<Rightarrow> (None, w1)
                       | (Some param, w1) \<Rightarrow>
                           (Some (RAW, raw_params (native e) param, one4all param), w1))
                    else (Some (RAW, params, for_all), w))
              else (Some (RAW, params, False), w)))"

text \<open>
  Lines 235 to 252, run for each file when \<open>RAW\<close> holds: the form is shown unless
  earlier parameters stand for all files. It gives \<open>params\<close> and \<open>one4all\<close> as they are
  afterwards, or nothing when the form is cancelled (the \<open>return\<close> of lines 239 and 244).
\<close>

definition raw_ask ::
  "env \<Rightarrow> bool \<Rightarrow> pydict \<Rightarrow> bool \<Rightarrow> world \<Rightarrow> (pydict \<times> bool) option \<times> world" where
  "raw_ask e several params for_all w =
     (if params = [] \<or> \<not> for_all then
        (if several then
           (case nOpenParam_edit e w of
              (None, w1) \<Rightarrow> (None, w1)
            | (Some param, w1) \<Rightarrow> (Some (raw_params (native e) param, one4all param), w1))
         else
           (case OpenParam_edit e w of
              (None, w1) \<Rightarrow> (None, w1)
            | (Some param, w1) \<Rightarrow> (Some (raw_params (native e) param, for_all), w1)))
      else (Some (params, for_all), w))"

text \<open>
  One turn of the loop, lines 231 to 266: either the array to yield, with \<open>params\<close>
  and \<open>one4all\<close> for the next turn, or the end of the generator.
\<close>

datatype loop_step = Yield ndarray pydict bool | Stop "unit outcome"

definition read_one ::
  "env \<Rightarrow> string option \<Rightarrow> bool \<Rightarrow> bool \<Rightarrow> bool \<Rightarrow> string \<Rightarrow> pydict \<Rightarrow> bool \<Rightarrow> world
     \<Rightarrow> loop_step \<times> world" where
  "read_one e app_name to_grayscale RAW several filename params for_all w =
     (case (if RAW = True then raw_ask e several params for_all w
            else (Some (params, for_all), w)) of
        (None, w1) \<Rightarrow> (Stop (Returned ()), w1)
      | (Some (params1, for_all1), w1) \<Rightarrow>
          (let w2 = emit (ImRead filename to_grayscale (Some params1)) w1
           in case imread e filename to_grayscale (Some params1) of
                Inr data \<Rightarrow> (Yield data params1 for_all1, w2)
              | Inl msg \<Rightarrow>
                  if isinstance_Exception msg
                  then (Stop (Returned ()),
                        show_error e app_name ''%s could not be opened:'' filename msg w2)
                  else (Stop (Propagated msg), w2)))"

text \<open>
  The loop of line 230. The generator is given as the list of the pairs it yields and
  the way it ends.
\<close>

fun read_all ::
  "env \<Rightarrow> string option \<Rightarrow> bool \<Rightarrow> bool \<Rightarrow> bool \<Rightarrow> string list \<Rightarrow> pydict \<Rightarrow> bool \<Rightarrow> world
     \<Rightarrow> ((string \<times> ndarray) list \<times> unit outcome) \<times> world" where
  "read_all e app_name to_grayscale RAW several [] params for_all w = (([], Returned ()), w)"
| "read_all e app_name to_grayscale RAW several (filename # rest) params for_all w =
     (case read_one e app_name to_grayscale RAW several filename params for_all w of
        (Stop out, w1) \<Rightarrow> (([], out), w1)
      | (Yield data params1 for_all1, w1) \<Rightarrow>
          (case read_all e app_name to_grayscale RAW several rest params1 for_all1 w1 of
             ((yields, out), w2) \<Rightarrow> (((filename, data) # yields, out), w2)))"

definition exec_images_open_dialog ::
  "env \<Rightarrow> string \<Rightarrow> string option \<Rightarrow> bool \<Rightarrow> numpy_dtype option \<Rightarrow> std_streams
     \<Rightarrow> ((string \<times> ndarray) list \<times> unit outcome) \<times> world" where
  "exec_images_open_dialog e basedir app_name to_grayscale dtype0 s0 =
     (let saved = s0;
          w1 = (init_world s0)\<lparr>sys := s0\<lparr>sys_stdout := PyNone\<rparr>\<rparr>;
          title = tr e ''Open''
      in case call_dialog (GetOpenFileNames title basedir dtype0)
                (getopenfilenames e title basedir dtype0) w1 of
           (Inl exn, w2) \<Rightarrow> (([], Propagated exn), w2)
         | (Inr filenames, w2) \<Rightarrow>
             (case raw_setup e filenames (w2\<lparr>sys := saved\<rparr>) of
                (None, w3) \<Rightarrow> (([], Returned ()), w3)
              | (Some (RAW, params, for_all), w3) \<Rightarrow>
                  read_all e app_name to_grayscale RAW (length filenames > 1)
                    filenames params for_all w3))"

subsection \<open>A concrete environment\<close>

text \<open>
  \<open>posixpath.splitext\<close> and \<open>posixpath.basename\<close>: the extension starts at the last
  dot of the last path component, unless only dots stand before it there.
\<close>

definition posix_basename :: "string \<Rightarrow> string" where
  "posix_basename p = rev (takeWhile (\<lambda>c. c \<noteq> CHR ''/'') (rev p))"

definition posix_splitext :: "string \<Rightarrow> string \<times> string" where
  "posix_splitext p =
     (let name = posix_basename p;
          suffix = rev (takeWhile (\<lambda>c. c \<noteq> CHR ''.'') (rev name));
          stem = take (length p - length suffix - 1) p;
          lead = take (length name - length suffix - 1) name
      in if length suffix < length name \<and> (\<exists>c \<in> set lead. c \<noteq> CHR ''.'')
         then (stem, drop (length stem) p)
         else (p, []))"

text \<open>
  An untranslated catalogue, a little-endian machine, no file on disk, dialogs that are
  cancelled, an I/O layer that knows no file type, forms that are cancelled. The examples
  below change the fields they need.
\<close>

definition quiet_env :: env where
  "quiet_env =
     \<lparr>tr = (\<lambda>s. s),
      splitext = posix_splitext,
      basename = posix_basename,
      isfile = (\<lambda>p. False),
      native = Little,
      getsavefilename = (\<lambda>title basedir dt template s. (Inr [], s)),
      getopenfilename = (\<lambda>title basedir dt s. (Inr [], s)),
      getopenfilenames = (\<lambda>title basedir dt s. (Inr [], s)),
      imread = (\<lambda>filename to_grayscale params. Inl (PyExc RuntimeError ''Unsupported file type'')),
      imwrite = (\<lambda>filename data kwargs. Inl (PyExc RuntimeError ''Unsupported file type'')),
      edit_OpenParam = (\<lambda>n. None),
      edit_nOpenParam = (\<lambda>n. None)\<rparr>"

text \<open>
  A save dialog that clears \<open>sys.stderr\<close> while it runs and gives \<open>name\<close>, over an I/O
  layer that writes every file; the same over an I/O layer that cannot write.
\<close>

definition save_env :: "string \<Rightarrow> env" where
  "save_env name =
     quiet_env
       \<lparr>getsavefilename := (\<lambda>title basedir dt template s. (Inr name, s\<lparr>sys_stderr := PyNone\<rparr>)),
        imwrite := (\<lambda>filename data kwargs. Inr ())\<rparr>"

definition failing_save_env :: "string \<Rightarrow> env" where
  "failing_save_env name =
     quiet_env
       \<lparr>getsavefilename := (\<lambda>title basedir dt template s. (Inr name, s\<lparr>sys_stderr := PyNone\<rparr>)),
        imwrite := (\<lambda>filename data kwargs. Inl (PyExc IOError ''disk full''))\<rparr>"

text \<open>
  An open dialog that clears \<open>sys.stderr\<close> and gives \<open>name\<close>, and one for several
  files that gives \<open>names\<close>, over an I/O layer that reads every file with an extension
  (in \<open>open_env\<close>) or every file but the one named \<open>broken\<close> (in \<open>images_env\<close>);
  the forms are filled in by \<open>form\<close>.
\<close>

definition uint8_image :: ndarray where
  "uint8_image = NDArray (DType NotApplicable (CHR ''u'') 1) [0, 255, 7, 9]"

definition open_env :: "string \<Rightarrow> env" where
  "open_env name =
     quiet_env
       \<lparr>getopenfilename := (\<lambda>title basedir dt s. (Inr name, s\<lparr>sys_stderr := PyNone\<rparr>)),
        imread := (\<lambda>filename to_grayscale params.
                     if snd (posix_splitext filename) = []
                     then Inl (PyExc RuntimeError ''Unsupported file type'')
                     else Inr uint8_image)\<rparr>"

definition images_env :: "string list \<Rightarrow> string \<Rightarrow> (nat \<Rightarrow> nOpenParam option) \<Rightarrow> env" where
  "images_env names broken form =
     quiet_env
       \<lparr>getopenfilenames := (\<lambda>title basedir dt s. (Inr names, s\<lparr>sys_stderr := PyNone\<rparr>)),
        imread := (\<lambda>filename to_grayscale params.
                     if filename = broken then Inl (PyExc IOError ''truncated file'')
                     else Inr uint8_image),
        edit_OpenParam := (\<lambda>n. map_option OpenParam.truncate (form n)),
        edit_nOpenParam := form\<rparr>"

text \<open>
  A form filled in once for all files: uint16, offset mode \<open>from_end_4k\<close>, byte order
  not little-endian.
\<close>

definition swapped_form :: "nat \<Rightarrow> nOpenParam option" where
  "swapped_form n =
     Some \<lparr>dtype = UInt16, mode = From_end_4k, endian_switch = False, manual_switch = False,
           m_offset = 0, one4all = True\<rparr>"

text \<open>
  A form accepted twice, for one file each time, and cancelled when it is shown a third
  time.
\<close>

definition cancelling_form :: "nat \<Rightarrow> nOpenParam option" where
  "cancelling_form n =
     (if n < 2
      then Some \<lparr>dtype = Int16, mode = Auto, endian_switch = True, manual_switch = True,
                 m_offset = 512, one4all = False\<rparr>
      else None)"

definition streams0 :: std_streams where
  "streams0 =
     \<lparr>sys_stdin = PyObject ''stdin'', sys_stdout = PyObject ''stdout'',
      sys_stderr = PyObject ''stderr''\<rparr>"

definition float64 :: numpy_dtype where
  "float64 = DType LittleEndian (CHR ''f'') 8"

definition float64_image :: ndarray where
  "float64_image = NDArray float64 [0, 0, 0, 0, 0, 0, 240, 63]"

subsection \<open>Reading the trace\<close>

text \<open>
  The calls of one kind among the calls made, in order: the arguments of each
  \<open>io.imwrite\<close>, of each \<open>io.imread\<close>, the title and text of each critical message
  box, and whether each raw-parameter form shown was accepted.
\<close>

fun imwrite_call :: "event \<Rightarrow> (string \<times> ndarray \<times> pydict) option" where
  "imwrite_call (ImWrite filename data kwargs) = Some (filename, data, kwargs)"
| "imwrite_call ev = None"

fun imread_call :: "event \<Rightarrow> (string \<times> bool \<times> pydict option) option" where
  "imread_call (ImRead filename to_grayscale params) = Some (filename, to_grayscale, params)"
| "imread_call ev = None"

fun critical_box :: "event \<Rightarrow> (string \<times> string) option" where
  "critical_box (Critical title text) = Some (title, text)"
| "critical_box ev = None"

fun form_shown :: "event \<Rightarrow> bool option" where
  "form_shown (EditOpenParam title r) = Some (r \<noteq> None)"
| "form_shown (EditnOpenParam title r) = Some (r \<noteq> None)"
| "form_shown ev = None"

definition imwrite_calls :: "world \<Rightarrow> (string \<times> ndarray \<times> pydict) list" where
  "imwrite_calls w = List.map_filter imwrite_call (events w)"

definition imread_calls :: "world \<Rightarrow> (string \<times> bool \<times> pydict option) list" where
  "imread_calls w = List.map_filter imread_call (events w)"

definition critical_boxes :: "world \<Rightarrow> (string \<times> string) list" where
  "critical_boxes w = List.map_filter critical_box (events w)"

definition forms_shown :: "world \<Rightarrow> bool list" where
  "forms_shown w = List.map_filter form_shown (events w)"

text \<open>
  The standard streams in place at the calls of a dialog, and at the calls of the other
  collaborators.
\<close>

fun is_dialog :: "event \<Rightarrow> bool" where
  "is_dialog (GetSaveFileName title basedir dt template) = True"
| "is_dialog (GetOpenFileName title basedir dt) = True"
| "is_dialog (GetOpenFileNames title basedir dt) = True"
| "is_dialog ev = False"

definition streams_at_dialog :: "world \<Rightarrow> std_streams list" where
  "streams_at_dialog w = map snd (filter (\<lambda>(ev, s). is_dialog ev) (trace w))"

definition streams_after_dialog :: "world \<Rightarrow> std_streams list" where
  "streams_after_dialog w = map snd (filter (\<lambda>(ev, s). \<not> is_dialog ev) (trace w))"

text \<open>
  The invariant of the code that follows the dialog: the streams are the saved ones, the
  dialog calls are those in \<open>d\<close>, and every other call so far found the saved streams.
\<close>

definition restored :: "std_streams \<Rightarrow> std_streams list \<Rightarrow> world \<Rightarrow> bool" where
  "restored s d w =
     (sys w = s \<and> streams_at_dialog w = d \<and> set (streams_after_dialog w) \<subseteq> {s})"

text \<open>
  The values entered in a form that was accepted, and, along a list of calls, the
  dictionary made from the form accepted last (\<open>cur\<close> when there is none).
  \<open>follows_forms\<close> holds when each \<open>io.imread\<close> of the list is given the dictionary in
  force when it is called.
\<close>

fun accepted_form :: "event \<Rightarrow> OpenParam option" where
  "accepted_form (EditOpenParam title (Some param)) = Some param"
| "accepted_form (EditnOpenParam title (Some param)) = Some (OpenParam.truncate param)"
| "accepted_form ev = None"

fun params_in_force :: "endianness \<Rightarrow> pydict \<Rightarrow> event list \<Rightarrow> pydict" where
  "params_in_force machine cur [] = cur"
| "params_in_force machine cur (ev # evs) =
     params_in_force machine
       (case accepted_form ev of Some param \<Rightarrow> raw_params machine param | None \<Rightarrow> cur) evs"

fun follows_forms :: "endianness \<Rightarrow> pydict \<Rightarrow> event list \<Rightarrow> bool" where
  "follows_forms machine cur [] = True"
| "follows_forms machine cur (ev # evs) =
     ((case ev of ImRead f g ps \<Rightarrow> ps = Some cur | _ \<Rightarrow> True) \<and>
      follows_forms machine
        (case accepted_form ev of Some param \<Rightarrow> raw_params machine param | None \<Rightarrow> cur) evs)"

text \<open>
  The ways the loop over \<open>fs\<close> can end after \<open>n\<close> pairs were yielded, given the message
  boxes and the forms shown meanwhile: every file was read; or the read of the next file
  raised and was reported; or a form was cancelled; or the read of the next file raised
  an exception that \<open>except Exception\<close> lets through.
\<close>

definition loop_exit ::
  "env \<Rightarrow> string option \<Rightarrow> bool \<Rightarrow> string list \<Rightarrow> nat \<Rightarrow> unit outcome \<Rightarrow> (string \<times> string) list
     \<Rightarrow> bool list \<Rightarrow> bool" where
  "loop_exit e app_name g fs n out boxes forms =
     ((n = length fs \<and> out = Returned () \<and> boxes = [] \<and> False \<notin> set forms) \<or>
      (n < length fs \<and> out = Returned () \<and> False \<notin> set forms \<and>
         (\<exists>msg ps. imread e (fs ! n) g (Some ps) = Inl msg \<and> isinstance_Exception msg \<and>
            boxes = [(error_title e app_name,
                      error_text e ''%s could not be opened:'' (fs ! n) msg)])) \<or>
      (n < length fs \<and> out = Returned () \<and> boxes = [] \<and> forms \<noteq> [] \<and> last forms = False) \<or>
      (n < length fs \<and> boxes = [] \<and> False \<notin> set forms \<and>
         (\<exists>exn ps. out = Propagated exn \<and> \<not> isinstance_Exception exn \<and>
            imread e (fs ! n) g (Some ps) = Inl exn)))"

text \<open>
  Two invariants of the loop. \<open>raw_calls RAW w\<close>: each \<open>io.imread\<close> so far was given a
  dictionary, non-empty exactly when \<open>RAW\<close> holds. \<open>tracked machine params w\<close>: the calls
  so far follow the forms, and \<open>params\<close> is the dictionary in force.
\<close>

definition raw_calls :: "bool \<Rightarrow> world \<Rightarrow> bool" where
  "raw_calls RAW w = (\<forall>c \<in> set (imread_calls w). \<exists>q. snd (snd c) = Some q \<and> (q \<noteq> []) = RAW)"

definition tracked :: "endianness \<Rightarrow> pydict \<Rightarrow> world \<Rightarrow> bool" where
  "tracked m params w =
     (follows_forms m [] (events w) \<and> params_in_force m [] (events w) = params)"

section \<open>Properties\<close>

text \<open>The definitions to unfold when a run is evaluated on a concrete input.\<close>

lemmas run_defs =
  exec_image_save_dialog_def save_dialog_def save_chosen_def try_write_def plain_write_def
  wide_write_def name_ext_def convert_of_def save_kwargs_def call_imwrite_def
  exec_image_open_dialog_def exec_images_open_dialog_def raw_setup_def raw_ask_def read_one_def
  is_raw_def raw_params_def OpenParam_edit_def nOpenParam_edit_def call_dialog_def emit_def
  init_world_def show_error_def error_title_def error_text_def
  quiet_env_def save_env_def failing_save_env_def open_env_def images_env_def swapped_form_def
  cancelling_form_def
  streams0_def float64_def float64_image_def uint8_image_def dtype_str_def
  posix_splitext_def posix_basename_def lower_def lower_char_def
  imwrite_calls_def imread_calls_def critical_boxes_def forms_shown_def events_def
  streams_at_dialog_def streams_after_dialog_def Let_def

subsection \<open>The trace and the message box\<close>

lemma events_emit: "events (emit ev w) = events w @ [ev]"
  by (simp add: events_def emit_def)

lemma map_filter_append:
  "List.map_filter f (xs @ ys) = List.map_filter f xs @ List.map_filter f ys"
  by (simp add: List.map_filter_def)

lemma percent_s_subst:
  "CHR ''%'' \<notin> set pre \<Longrightarrow> percent_s (pre @ CHR ''%'' # CHR ''s'' # post) arg = pre @ arg @ post"
proof (induction pre)
  case Nil
  then show ?case by simp
next
  case (Cons c pre)
  then show ?case by (cases pre) auto
qed

lemma save_dialog_accepted:
  assumes "save_dialog e data template basedir s0 = (Inr filename, w)"
  shows "sys w = s0 \<and> n_edits w = 0 \<and> imwrite_calls w = [] \<and> critical_boxes w = [] \<and> imread_calls w = [] \<and> forms_shown w = []"
  using assms
  by (auto simp: save_dialog_def call_dialog_def init_world_def emit_def events_def Let_def
        imwrite_calls_def critical_boxes_def imread_calls_def forms_shown_def 
      split: prod.splits sum.splits if_splits)

lemma imwrite_calls_emit:
  "imwrite_calls (emit ev w) = imwrite_calls w @ List.map_filter imwrite_call [ev]"
  by (simp add: imwrite_calls_def events_emit map_filter_append)

lemma imread_calls_emit:
  "imread_calls (emit ev w) = imread_calls w @ List.map_filter imread_call [ev]"
  by (simp add: imread_calls_def events_emit map_filter_append)

lemma critical_boxes_emit:
  "critical_boxes (emit ev w) = critical_boxes w @ List.map_filter critical_box [ev]"
  by (simp add: critical_boxes_def events_emit map_filter_append)

lemma forms_shown_emit:
  "forms_shown (emit ev w) = forms_shown w @ List.map_filter form_shown [ev]"
  by (simp add: forms_shown_def events_emit map_filter_append)

lemma critical_boxes_show_error:
  "critical_boxes (show_error e app_name msgid filename msg w) =
     critical_boxes w @ [(error_title e app_name, error_text e msgid filename msg)]"
  by (simp add: show_error_def critical_boxes_def events_emit map_filter_append)

lemma imwrite_calls_show_error:
  "imwrite_calls (show_error e app_name msgid filename msg w) = imwrite_calls w"
  by (simp add: show_error_def imwrite_calls_def events_emit map_filter_append)

lemma imread_calls_show_error:
  "imread_calls (show_error e app_name msgid filename msg w) = imread_calls w"
  by (simp add: show_error_def imread_calls_def events_emit map_filter_append)

lemma forms_shown_show_error:
  "forms_shown (show_error e app_name msgid filename msg w) = forms_shown w"
  by (simp add: show_error_def forms_shown_def events_emit map_filter_append)

lemma sys_show_error: "sys (show_error e app_name msgid filename msg w) = sys w"
  by (simp add: show_error_def emit_def)

lemma try_write_float:
  "convert_of data \<Longrightarrow> try_write e data (convert_of data) filename kwargs w = (Inl (PyExc NameError ''name 'ext' is not defined''), w)"
  by (simp add: try_write_def plain_write_def name_ext_def)

lemma try_write_plain:
  "try_write e data False filename kwargs w = (imwrite e filename data kwargs, emit (ImWrite filename data kwargs) w)"
  by (simp add: try_write_def plain_write_def call_imwrite_def)

lemma try_write_raises:
  assumes "try_write e data c filename kwargs w = (Inl msg, w1)"
  shows "critical_boxes w1 = critical_boxes w"
  using assms
  by (auto simp: try_write_def plain_write_def wide_write_def name_ext_def call_imwrite_def critical_boxes_def events_emit map_filter_append
      split: if_splits sum.splits bool.splits)

subsection \<open>exec_image_save_dialog: claims C1, C2, C3, C8\<close>

text \<open>
  Claim C2. When the array's dtype string is \<open><f4\<close> or \<open><f8\<close> and the save dialog
  gives a non-empty file name, \<open>io.imwrite\<close> is not called at all: reading \<open>ext\<close>
  raises \<open>NameError\<close> inside the \<open>try\<close>, the handler shows the critical message box
  (with the text of that \<open>NameError\<close>), and the function returns \<open>None\<close>.
\<close>

theorem float_data_is_never_written:
  assumes "dtype_str (data_dtype data) = ''<f4'' \<or> dtype_str (data_dtype data) = ''<f8''"
    and "save_dialog e data template basedir s0 = (Inr filename, w)"
    and "filename \<noteq> []"
  shows "(case exec_image_save_dialog e data template basedir app_name s0 of
            (r, w') \<Rightarrow>
              r = Returned None \<and>
              imwrite_calls w' = [] \<and>
              critical_boxes w' =
                [(error_title e app_name,
                  error_text e ''%s could not be written:'' filename
                    (PyExc NameError ''name 'ext' is not defined''))])"
proof -
  have c: "convert_of data" using assms(1) by (auto simp: convert_of_def)
  show ?thesis
    using save_dialog_accepted[OF assms(2)] assms(2,3) try_write_float[OF c]
    by (simp add: exec_image_save_dialog_def save_chosen_def critical_boxes_show_error imwrite_calls_show_error)
qed

text \<open>
  The theorem at a float64 array saved as \<open>/tmp/img.png\<close>, with no application name
  and an untranslated catalogue.
\<close>

theorem float_data_is_never_written_witness:
  "(case exec_image_save_dialog (save_env ''/tmp/img.png'') float64_image PyNone ''/tmp'' None streams0 of
      (r, w') \<Rightarrow>
        r = Returned None \<and>
        imwrite_calls w' = [] \<and>
        critical_boxes w' =
          [(''Error'', ''img.png could not be written:'' @ [CHR 0x0A] @ ''name 'ext' is not defined'')])"
proof -
  let ?w = "snd (save_dialog (save_env ''/tmp/img.png'') float64_image PyNone ''/tmp'' streams0)"
  have h1: "dtype_str (data_dtype float64_image) = ''<f4'' \<or> dtype_str (data_dtype float64_image) = ''<f8''"
    by (simp add: float64_image_def float64_def dtype_str_def)
  have h2: "save_dialog (save_env ''/tmp/img.png'') float64_image PyNone ''/tmp'' streams0 = (Inr ''/tmp/img.png'', ?w)"
    by (simp add: save_dialog_def save_env_def quiet_env_def call_dialog_def emit_def init_world_def)
  have h3: "''/tmp/img.png'' \<noteq> []" by simp
  show ?thesis
    using float_data_is_never_written[OF h1 h2 h3, where app_name = None]
    by (simp add: error_title_def error_text_def save_env_def quiet_env_def posix_basename_def)
qed

text \<open>
  Claim C3. When the save dialog gives a non-empty file name and the write attempt (the
  body of the \<open>try\<close>) raises an exception, an instance of \<open>Exception\<close>, the function
  returns \<open>None\<close> and shows one critical message box. Its title is \<open>app_name\<close>, or
  the catalogue's entry for \<open>"Error"\<close> when \<open>app_name\<close> is \<open>None\<close>. Its text is the
  catalogue's entry for \<open>"%s could not be written:"\<close> with the base name of the file
  put in for \<open>%s\<close>, a newline, and the text of the exception.
\<close>

theorem failed_write_shows_critical_box:
  assumes "save_dialog e data template basedir s0 = (Inr filename, w)"
    and "filename \<noteq> []"
    and "fst (try_write e data (convert_of data) filename (save_kwargs e template filename) w) = Inl msg"
    and "isinstance_Exception msg"
  shows "(case exec_image_save_dialog e data template basedir app_name s0 of
            (r, w') \<Rightarrow>
              r = Returned None \<and>
              (\<exists>text.
                 critical_boxes w' =
                   [((case app_name of None \<Rightarrow> tr e ''Error'' | Some name \<Rightarrow> name), text)] \<and>
                 text = percent_s (tr e ''%s could not be written:'') (basename e filename)
                          @ [CHR 0x0A] @ exc_str msg \<and>
                 (\<forall>pre post.
                    tr e ''%s could not be written:'' = pre @ ''%s'' @ post \<and> CHR ''%'' \<notin> set pre \<longrightarrow>
                    text = pre @ basename e filename @ post @ [CHR 0x0A] @ exc_str msg)))"
proof -
  obtain w1 where tw: "try_write e data (convert_of data) filename (save_kwargs e template filename) w = (Inl msg, w1)"
    using assms(3) by (cases "try_write e data (convert_of data) filename (save_kwargs e template filename) w") auto
  have cb: "critical_boxes w1 = []"
    using try_write_raises[OF tw] save_dialog_accepted[OF assms(1)] by simp
  show ?thesis
    using assms(1,2,4) tw cb
    by (auto simp: exec_image_save_dialog_def save_chosen_def critical_boxes_show_error
          error_title_def error_text_def percent_s_subst)
qed


text \<open>
  The theorem at an uint8 array saved as \<open>/tmp/scan.tif\<close> by the application
  \<open>Viewer\<close>, over an I/O layer that raises \<open>IOError\<close>.
\<close>

theorem failed_write_shows_critical_box_witness:
  "(case exec_image_save_dialog (failing_save_env ''/tmp/scan.tif'') uint8_image PyNone ''/tmp''
           (Some ''Viewer'') streams0 of
      (r, w') \<Rightarrow>
        r = Returned None \<and>
        critical_boxes w' =
          [(''Viewer'', ''scan.tif could not be written:'' @ [CHR 0x0A] @ ''disk full'')])"
proof -
  let ?e = "failing_save_env ''/tmp/scan.tif''"
  let ?w = "snd (save_dialog ?e uint8_image PyNone ''/tmp'' streams0)"
  have h1: "save_dialog ?e uint8_image PyNone ''/tmp'' streams0 = (Inr ''/tmp/scan.tif'', ?w)"
    by (simp add: save_dialog_def failing_save_env_def quiet_env_def call_dialog_def emit_def
          init_world_def)
  have h2: "''/tmp/scan.tif'' \<noteq> []" by simp
  have h3: "fst (try_write ?e uint8_image (convert_of uint8_image) ''/tmp/scan.tif''
                   (save_kwargs ?e PyNone ''/tmp/scan.tif'') ?w) = Inl (PyExc IOError ''disk full'')"
    by (simp add: try_write_def plain_write_def convert_of_def uint8_image_def dtype_str_def
          call_imwrite_def failing_save_env_def quiet_env_def)
  have h4: "isinstance_Exception (PyExc IOError ''disk full'')" by simp
  show ?thesis
    using failed_write_shows_critical_box[OF h1 h2 h3 h4, where app_name = "Some ''Viewer''"]
    by (auto simp: failing_save_env_def quiet_env_def posix_basename_def split: prod.splits)
qed

text \<open>
  For an array that is not of dtype \<open><f4\<close> or \<open><f8\<close>, the array is handed to
  \<open>io.imwrite\<close> under the chosen name, once, with the \<open>template\<close> keyword exactly for
  the extension \<open>.dcm\<close>, and the name is returned when the write succeeds.
\<close>

lemma plain_data_is_written:
  assumes "save_dialog e data template basedir s0 = (Inr filename, w)"
    and "filename \<noteq> []"
    and "\<not> convert_of data"
  shows "(case exec_image_save_dialog e data template basedir app_name s0 of
            (r, w') \<Rightarrow>
              imwrite_calls w' = [(filename, data, save_kwargs e template filename)] \<and>
              (imwrite e filename data (save_kwargs e template filename) = Inr () \<longrightarrow>
                 r = Returned (Some filename)))"
  using save_dialog_accepted[OF assms(1)] assms
  by (auto simp: exec_image_save_dialog_def save_chosen_def try_write_plain imwrite_calls_show_error
        imwrite_calls_emit Let_def split: sum.splits)

lemma save_kwargs_template:
  "(map_of (save_kwargs e template filename) ''template'' = Some template) =
     (lower (snd (splitext e filename)) = ''.dcm'')"
  by (simp add: save_kwargs_def)

text \<open>
  Claim C1 says that whenever the save dialog gives a non-empty file name,
  \<open>io.imwrite\<close> is called with that name and the array, and the name is returned when the
  write succeeds. The code does not do so for a float64 array: saved as
  \<open>/home/user/plot.png\<close> over an I/O layer that would write the file, \<open>io.imwrite\<close> is
  never called and the function returns \<open>None\<close>.
\<close>

theorem float_image_is_not_handed_to_imwrite:
  "imwrite (save_env ''/home/user/plot.png'') ''/home/user/plot.png'' float64_image [] = Inr () \<and>
   (case exec_image_save_dialog (save_env ''/home/user/plot.png'') float64_image PyNone []
           None streams0 of
      (r, w') \<Rightarrow> r = Returned None \<and> imwrite_calls w' = [])"
  by (simp add: exec_image_save_dialog_def save_dialog_def save_chosen_def try_write_def
        plain_write_def name_ext_def convert_of_def float64_image_def float64_def dtype_str_def
        save_env_def quiet_env_def call_dialog_def emit_def init_world_def show_error_def
        imwrite_calls_def events_def save_kwargs_def)

text \<open>
  Claim C8 says that the template is forwarded to \<open>io.imwrite\<close> if and only if the
  lowercased extension of the chosen name is \<open>.dcm\<close>. The code does not do so for a
  float64 array: saved as \<open>/tmp/scan.DCM\<close>, whose lowercased extension is \<open>.dcm\<close>,
  nothing is forwarded, as \<open>io.imwrite\<close> is never called.
\<close>

theorem float_dcm_template_is_not_forwarded:
  "lower (snd (splitext (save_env ''/tmp/scan.DCM'') ''/tmp/scan.DCM'')) = ''.dcm'' \<and>
   (case exec_image_save_dialog (save_env ''/tmp/scan.DCM'') float64_image (PyObject ''dataset'')
           ''/tmp'' None streams0 of
      (r, w') \<Rightarrow> imwrite_calls w' = [])"
  by (simp add: exec_image_save_dialog_def save_dialog_def save_chosen_def try_write_def
        plain_write_def name_ext_def convert_of_def float64_image_def float64_def dtype_str_def
        save_env_def quiet_env_def call_dialog_def emit_def init_world_def show_error_def
        imwrite_calls_def events_def save_kwargs_def lower_def lower_char_def posix_splitext_def
        posix_basename_def)

subsection \<open>exec_image_open_dialog: claims C4, C9\<close>

text \<open>
  Claim C4. When the open dialog gives a file name, \<open>io.imread\<close> is called once, on
  that name. If it succeeds, the function returns the pair of the name and the array
  read, and shows no message box. If it raises an exception, an instance of
  \<open>Exception\<close>, the function returns \<open>None\<close> and shows one critical message box,
  titled \<open>app_name\<close>, or the catalogue's entry for \<open>"Error"\<close> when \<open>app_name\<close> is
  \<open>None\<close>.
\<close>

theorem open_dialog_returns_what_imread_gives:
  assumes "getopenfilename e (tr e ''Open'') basedir dtype0 (s0\<lparr>sys_stdout := PyNone\<rparr>) =
             (Inr filename, s1)"
  shows "(case exec_image_open_dialog e basedir app_name to_grayscale dtype0 s0 of
            (r, w') \<Rightarrow>
              imread_calls w' = [(filename, to_grayscale, None)] \<and>
              (\<forall>data. imread e filename to_grayscale None = Inr data \<longrightarrow>
                 r = Returned (Some (filename, data)) \<and> critical_boxes w' = []) \<and>
              (\<forall>msg. imread e filename to_grayscale None = Inl msg \<and> isinstance_Exception msg \<longrightarrow>
                 r = Returned None \<and>
                 critical_boxes w' =
                   [((case app_name of None \<Rightarrow> tr e ''Error'' | Some name \<Rightarrow> name),
                     percent_s (tr e ''%s could not be opened:'') (basename e filename)
                       @ [CHR 0x0A] @ exc_str msg)]))"
  using assms
  by (auto simp: exec_image_open_dialog_def call_dialog_def init_world_def emit_def Let_def
        show_error_def imread_calls_def critical_boxes_def events_def error_title_def
        error_text_def
      split: sum.splits)

text \<open>
  The theorem at \<open>/data/a.png\<close>, which the I/O layer reads, and at \<open>/data/README\<close>,
  on which it raises.
\<close>

theorem open_dialog_returns_what_imread_gives_witness:
  "(case exec_image_open_dialog (open_env ''/data/a.png'') ''/data'' None True None streams0 of
      (r, w') \<Rightarrow> r = Returned (Some (''/data/a.png'', uint8_image)) \<and> critical_boxes w' = []) \<and>
   (case exec_image_open_dialog (open_env ''/data/README'') ''/data'' None True None streams0 of
      (r, w') \<Rightarrow>
        r = Returned None \<and>
        critical_boxes w' =
          [(''Error'', ''README could not be opened:'' @ [CHR 0x0A] @ ''Unsupported file type'')])"
proof -
  have h1: "getopenfilename (open_env ''/data/a.png'') (tr (open_env ''/data/a.png'') ''Open'')
              ''/data'' None (streams0\<lparr>sys_stdout := PyNone\<rparr>) =
            (Inr ''/data/a.png'', streams0\<lparr>sys_stdout := PyNone, sys_stderr := PyNone\<rparr>)"
    by (simp add: open_env_def quiet_env_def)
  have h2: "getopenfilename (open_env ''/data/README'') (tr (open_env ''/data/README'') ''Open'')
              ''/data'' None (streams0\<lparr>sys_stdout := PyNone\<rparr>) =
            (Inr ''/data/README'', streams0\<lparr>sys_stdout := PyNone, sys_stderr := PyNone\<rparr>)"
    by (simp add: open_env_def quiet_env_def)
  have r1: "imread (open_env ''/data/a.png'') ''/data/a.png'' True None = Inr uint8_image"
    by (simp add: open_env_def quiet_env_def posix_splitext_def posix_basename_def)
  have r2: "imread (open_env ''/data/README'') ''/data/README'' True None =
              Inl (PyExc RuntimeError ''Unsupported file type'')"
    by (simp add: open_env_def quiet_env_def posix_splitext_def posix_basename_def)
  show ?thesis
    using open_dialog_returns_what_imread_gives[OF h1, where app_name = None and to_grayscale = True]
      open_dialog_returns_what_imread_gives[OF h2, where app_name = None and to_grayscale = True] r1 r2
    by (auto simp: open_env_def quiet_env_def posix_basename_def split: prod.splits)
qed

text \<open>
  Claim C9. When the open dialog is cancelled, which gives the empty string as the file
  name, the function does not return early: it calls \<open>io.imread\<close> on the empty string.
  It never returns \<open>None\<close> without a critical message box, and when \<open>io.imread\<close>
  raises on the empty string, the function shows the message box and returns \<open>None\<close>.
\<close>

theorem cancelled_open_dialog_still_reads:
  assumes "getopenfilename e (tr e ''Open'') basedir dtype0 (s0\<lparr>sys_stdout := PyNone\<rparr>) =
             (Inr [], s1)"
  shows "(case exec_image_open_dialog e basedir app_name to_grayscale dtype0 s0 of
            (r, w') \<Rightarrow>
              imread_calls w' = [([], to_grayscale, None)] \<and>
              (r = Returned None \<longrightarrow> critical_boxes w' \<noteq> []) \<and>
              (\<forall>msg. imread e [] to_grayscale None = Inl msg \<and> isinstance_Exception msg \<longrightarrow>
                 r = Returned None \<and>
                 critical_boxes w' =
                   [(error_title e app_name, error_text e ''%s could not be opened:'' [] msg)]))"
  using assms
  by (auto simp: exec_image_open_dialog_def call_dialog_def init_world_def emit_def Let_def
        show_error_def imread_calls_def critical_boxes_def events_def
      split: sum.splits)

text \<open>
  The theorem at a cancelled dialog over an I/O layer that raises on a name without
  extension.
\<close>

theorem cancelled_open_dialog_still_reads_witness:
  "(case exec_image_open_dialog (open_env []) ''/data'' (Some ''Viewer'') True None streams0 of
      (r, w') \<Rightarrow>
        imread_calls w' = [([], True, None)] \<and>
        r = Returned None \<and>
        critical_boxes w' =
          [(''Viewer'', '' could not be opened:'' @ [CHR 0x0A] @ ''Unsupported file type'')])"
proof -
  have h: "getopenfilename (open_env []) (tr (open_env []) ''Open'') ''/data'' None
             (streams0\<lparr>sys_stdout := PyNone\<rparr>) =
           (Inr [], streams0\<lparr>sys_stdout := PyNone, sys_stderr := PyNone\<rparr>)"
    by (simp add: open_env_def quiet_env_def)
  have r: "imread (open_env []) [] True None = Inl (PyExc RuntimeError ''Unsupported file type'')"
    by (simp add: open_env_def quiet_env_def posix_splitext_def posix_basename_def)
  show ?thesis
    using cancelled_open_dialog_still_reads[OF h, where app_name = "Some ''Viewer''" and to_grayscale = True] r
    by (auto simp: open_env_def quiet_env_def posix_basename_def error_title_def error_text_def
        split: prod.splits)
qed

subsection \<open>The standard streams: claim C10\<close>

lemma restored_emit:
  "\<not> is_dialog ev \<Longrightarrow> restored s d w \<Longrightarrow> restored s d (emit ev w)"
  by (auto simp: restored_def emit_def streams_at_dialog_def streams_after_dialog_def)

lemma restored_show_error:
  "restored s d w \<Longrightarrow> restored s d (show_error e app_name msgid filename msg w)"
  by (simp add: show_error_def restored_emit)

lemma restored_edit:
  "restored s d w \<Longrightarrow> restored s d (snd (OpenParam_edit e w))"
  "restored s d w \<Longrightarrow> restored s d (snd (nOpenParam_edit e w))"
  by (auto simp: OpenParam_edit_def nOpenParam_edit_def Let_def restored_def emit_def
        streams_at_dialog_def streams_after_dialog_def)

lemma try_write_restored:
  assumes "try_write e data c filename kwargs w = (r, w1)" and "restored s d w"
  shows "restored s d w1"
proof -
  have "w1 = w \<or> (\<exists>kw. w1 = emit (ImWrite filename data kw) w)"
    using assms(1)
    by (auto simp: try_write_def plain_write_def wide_write_def name_ext_def call_imwrite_def
        split: if_splits sum.splits bool.splits)
  then show ?thesis using assms(2) by (auto simp: restored_emit)
qed

lemma save_dialog_restored:
  assumes "save_dialog e data template basedir s0 = (r, w)"
  shows "take 1 (streams_at_dialog w) = [s0\<lparr>sys_stdout := PyNone\<rparr>] \<and> streams_after_dialog w = [] \<and>
         (\<forall>filename. r = Inr filename \<longrightarrow> sys w = s0)"
  using assms
  by (auto simp: save_dialog_def call_dialog_def init_world_def emit_def Let_def
        streams_at_dialog_def streams_after_dialog_def
      split: prod.splits sum.splits if_splits)

lemma save_chosen_restored:
  assumes "save_chosen e data template app_name filename w = (r, w')" and "restored s d w"
  shows "restored s d w'"
proof (cases "filename = []")
  case True
  then show ?thesis using assms by (auto simp: save_chosen_def)
next
  case False
  obtain r1 w1 where tw:
    "try_write e data (convert_of data) filename (save_kwargs e template filename) w = (r1, w1)"
    by (cases "try_write e data (convert_of data) filename (save_kwargs e template filename) w")
  have "w' = w1 \<or> (\<exists>msg. w' = show_error e app_name ''%s could not be written:'' filename msg w1)"
    using assms(1) False tw by (auto simp: save_chosen_def split: sum.splits if_splits)
  then show ?thesis
    using try_write_restored[OF tw assms(2)] by (auto simp: restored_show_error)
qed

lemma exec_image_save_dialog_streams:
  "(case exec_image_save_dialog e data template basedir app_name s0 of
      (r, w') \<Rightarrow>
        (\<forall>v. r = Returned v \<longrightarrow> sys w' = s0) \<and>
        take 1 (streams_at_dialog w') = [s0\<lparr>sys_stdout := PyNone\<rparr>] \<and>
        set (streams_after_dialog w') \<subseteq> {s0})"
proof -
  obtain r1 w1 where sd: "save_dialog e data template basedir s0 = (r1, w1)"
    by (cases "save_dialog e data template basedir s0")
  show ?thesis
  proof (cases r1)
    case (Inl exn)
    then show ?thesis
      using sd save_dialog_restored[OF sd] by (simp add: exec_image_save_dialog_def)
  next
    case (Inr filename)
    obtain r w' where sc: "save_chosen e data template app_name filename w1 = (r, w')"
      by (cases "save_chosen e data template app_name filename w1")
    have "restored s0 (streams_at_dialog w1) w1"
      using save_dialog_restored[OF sd] Inr by (simp add: restored_def)
    then have "restored s0 (streams_at_dialog w1) w'"
      by (rule save_chosen_restored[OF sc])
    then show ?thesis
      using sd Inr sc save_dialog_restored[OF sd]
      by (simp add: exec_image_save_dialog_def restored_def)
  qed
qed

lemma exec_image_open_dialog_streams:
  "(case exec_image_open_dialog e basedir app_name to_grayscale dtype0 s0 of
      (r, w') \<Rightarrow>
        (\<forall>v. r = Returned v \<longrightarrow> sys w' = s0) \<and>
        take 1 (streams_at_dialog w') = [s0\<lparr>sys_stdout := PyNone\<rparr>] \<and>
        set (streams_after_dialog w') \<subseteq> {s0})"
  by (auto simp: exec_image_open_dialog_def call_dialog_def init_world_def emit_def Let_def
        show_error_def streams_at_dialog_def streams_after_dialog_def
      split: prod.splits sum.splits if_splits)

lemma raw_ask_restored:
  assumes "raw_ask e several params for_all w = (r, w1)" and "restored s d w"
  shows "restored s d w1"
proof -
  have "w1 = w \<or> w1 = snd (OpenParam_edit e w) \<or> w1 = snd (nOpenParam_edit e w)"
    using assms(1) by (auto simp: raw_ask_def split: if_splits prod.splits option.splits)
  then show ?thesis using assms(2) by (auto simp: restored_edit)
qed

lemma raw_setup_restored:
  assumes "raw_setup e filenames w = (r, w1)" and "restored s d w"
  shows "restored s d w1"
proof -
  have "w1 = w \<or> w1 = snd (nOpenParam_edit e w)"
    using assms(1)
    by (auto simp: raw_setup_def Let_def split: if_splits prod.splits option.splits list.splits)
  then show ?thesis using assms(2) by (auto simp: restored_edit)
qed

lemma read_one_restored:
  assumes "read_one e app_name to_grayscale RAW several filename params for_all w = (r, w1)"
    and "restored s d w"
  shows "restored s d w1"
proof -
  obtain q w0 where ra:
    "(if RAW = True then raw_ask e several params for_all w else (Some (params, for_all), w)) = (q, w0)"
    by (cases "if RAW = True then raw_ask e several params for_all w else (Some (params, for_all), w)")
  have w0: "restored s d w0"
    using ra raw_ask_restored[of e several params for_all w q w0] assms(2)
    by (auto split: if_splits)
  show ?thesis
    using assms(1) ra w0
    by (auto simp: read_one_def Let_def restored_emit restored_show_error
        split: option.splits sum.splits if_splits)
qed

lemma read_all_restored:
  "read_all e app_name to_grayscale RAW several filenames params for_all w = (r, w') \<Longrightarrow>
   restored s d w \<Longrightarrow> restored s d w'"
proof (induction filenames arbitrary: params for_all w r w')
  case Nil
  then show ?case by auto
next
  case (Cons filename rest)
  obtain st w1 where ro:
    "read_one e app_name to_grayscale RAW several filename params for_all w = (st, w1)"
    by (cases "read_one e app_name to_grayscale RAW several filename params for_all w")
  note s1 = read_one_restored[OF ro Cons.prems(2)]
  show ?case
  proof (cases st)
    case (Stop out)
    then show ?thesis using Cons.prems ro s1 by auto
  next
    case (Yield data params1 for_all1)
    obtain r2 w2 where ra:
      "read_all e app_name to_grayscale RAW several rest params1 for_all1 w1 = (r2, w2)"
      by (cases "read_all e app_name to_grayscale RAW several rest params1 for_all1 w1")
    have "w' = w2" using Cons.prems ro Yield ra by (auto split: prod.splits)
    then show ?thesis using Cons.IH[OF ra s1] by simp
  qed
qed

lemma exec_images_open_dialog_streams:
  "(case exec_images_open_dialog e basedir app_name to_grayscale dtype0 s0 of
      ((yields, out), w') \<Rightarrow>
        (out = Returned () \<longrightarrow> sys w' = s0) \<and>
        take 1 (streams_at_dialog w') = [s0\<lparr>sys_stdout := PyNone\<rparr>] \<and>
        set (streams_after_dialog w') \<subseteq> {s0})"
proof -
  let ?w1 = "(init_world s0)\<lparr>sys := s0\<lparr>sys_stdout := PyNone\<rparr>\<rparr>"
  let ?d = "[s0\<lparr>sys_stdout := PyNone\<rparr>]"
  obtain r1 w2 where cd: "call_dialog (GetOpenFileNames (tr e ''Open'') basedir dtype0)
                (getopenfilenames e (tr e ''Open'') basedir dtype0) ?w1 = (r1, w2)"
    by (cases "call_dialog (GetOpenFileNames (tr e ''Open'') basedir dtype0)
                (getopenfilenames e (tr e ''Open'') basedir dtype0) ?w1")
  have w2: "streams_at_dialog w2 = ?d \<and> streams_after_dialog w2 = []"
    using cd
    by (auto simp: call_dialog_def init_world_def emit_def Let_def streams_at_dialog_def
          streams_after_dialog_def split: prod.splits)
  show ?thesis
  proof (cases r1)
    case (Inl exn)
    then show ?thesis using cd w2 by (simp add: exec_images_open_dialog_def Let_def)
  next
    case (Inr filenames)
    let ?w3 = "w2\<lparr>sys := s0\<rparr>"
    have w3: "restored s0 ?d ?w3"
      using w2 by (simp add: restored_def streams_at_dialog_def streams_after_dialog_def)
    obtain q w4 where rs: "raw_setup e filenames ?w3 = (q, w4)"
      by (cases "raw_setup e filenames ?w3")
    note s4 = raw_setup_restored[OF rs w3]
    show ?thesis
    proof (cases q)
      case None
      then show ?thesis
        using cd Inr rs s4 by (auto simp: exec_images_open_dialog_def Let_def restored_def)
    next
      case (Some t)
      obtain RAW params for_all where t: "t = (RAW, params, for_all)" by (cases t)
      obtain r w' where ra: "read_all e app_name to_grayscale RAW (length filenames > 1)
                    filenames params for_all w4 = (r, w')"
        by (cases "read_all e app_name to_grayscale RAW (length filenames > 1)
                    filenames params for_all w4")
      show ?thesis
        using cd Inr rs Some t ra read_all_restored[OF ra s4]
        by (auto simp: exec_images_open_dialog_def Let_def restored_def)
    qed
  qed
qed

text \<open>
  Claim C10. Each of the three functions calls its dialog with \<open>sys.stdout\<close> set to
  \<open>None\<close> and \<open>sys.stdin\<close>, \<open>sys.stderr\<close> as they were on entry; every later call
  (to \<open>io.imread\<close>, \<open>io.imwrite\<close>, the raw-parameter forms, the traceback and the
  message box) finds the three streams as they were on entry, whatever the dialog did to
  them; and on every normal return the three streams are those of entry.
\<close>

theorem standard_streams_are_restored:
  "(case exec_image_save_dialog e data template basedir app_name s0 of
      (r, w') \<Rightarrow>
        (\<forall>v. r = Returned v \<longrightarrow> sys w' = s0) \<and>
        take 1 (streams_at_dialog w') = [s0\<lparr>sys_stdout := PyNone\<rparr>] \<and>
        set (streams_after_dialog w') \<subseteq> {s0}) \<and>
   (case exec_image_open_dialog e basedir app_name to_grayscale dtype0 s0 of
      (r, w') \<Rightarrow>
        (\<forall>v. r = Returned v \<longrightarrow> sys w' = s0) \<and>
        take 1 (streams_at_dialog w') = [s0\<lparr>sys_stdout := PyNone\<rparr>] \<and>
        set (streams_after_dialog w') \<subseteq> {s0}) \<and>
   (case exec_images_open_dialog e basedir app_name to_grayscale dtype0 s0 of
      ((yields, out), w') \<Rightarrow>
        (out = Returned () \<longrightarrow> sys w' = s0) \<and>
        take 1 (streams_at_dialog w') = [s0\<lparr>sys_stdout := PyNone\<rparr>] \<and>
        set (streams_after_dialog w') \<subseteq> {s0})"
  using exec_image_save_dialog_streams[where e = e and data = data and template = template
      and basedir = basedir and app_name = app_name and ?s0.0 = s0]
    exec_image_open_dialog_streams[where e = e and basedir = basedir and app_name = app_name
      and to_grayscale = to_grayscale and ?dtype0.0 = dtype0 and ?s0.0 = s0]
    exec_images_open_dialog_streams[where e = e and basedir = basedir and app_name = app_name
      and to_grayscale = to_grayscale and ?dtype0.0 = dtype0 and ?s0.0 = s0]
  by simp

text \<open>
  The theorem at one run of each function, with dialogs that clear \<open>sys.stderr\<close>.
\<close>

theorem standard_streams_are_restored_witness:
  "(case exec_image_save_dialog (save_env ''/tmp/a.png'') uint8_image PyNone ''/tmp'' None streams0 of
      (r, w') \<Rightarrow> r = Returned (Some ''/tmp/a.png'') \<and> sys w' = streams0 \<and>
        streams_at_dialog w' = [streams0\<lparr>sys_stdout := PyNone\<rparr>] \<and>
        streams_after_dialog w' = [streams0]) \<and>
   (case exec_image_open_dialog (open_env ''/data/README'') ''/data'' None True None streams0 of
      (r, w') \<Rightarrow> r = Returned None \<and> sys w' = streams0 \<and>
        streams_after_dialog w' = [streams0, streams0, streams0]) \<and>
   (case exec_images_open_dialog (images_env [''/data/a.raw'', ''/data/b.png''] [] swapped_form)
           ''/data'' None True None streams0 of
      ((yields, out), w') \<Rightarrow> out = Returned () \<and> sys w' = streams0 \<and>
        streams_after_dialog w' = [streams0, streams0, streams0])"
  using standard_streams_are_restored[where e = "save_env ''/tmp/a.png''" and data = uint8_image
      and template = PyNone and basedir = "''/tmp''" and app_name = None and ?s0.0 = streams0]
    standard_streams_are_restored[where e = "open_env ''/data/README''" and basedir = "''/data''"
      and app_name = None and to_grayscale = True and ?dtype0.0 = None and ?s0.0 = streams0]
    standard_streams_are_restored[
      where e = "images_env [''/data/a.raw'', ''/data/b.png''] [] swapped_form"
      and basedir = "''/data''" and app_name = None and to_grayscale = True and ?dtype0.0 = None
      and ?s0.0 = streams0]
  by (simp add: run_defs)

subsection \<open>The loop of exec_images_open_dialog\<close>

lemma edit_calls:
  "OpenParam_edit e w = (r, w1) \<Longrightarrow>
     imread_calls w1 = imread_calls w \<and> critical_boxes w1 = critical_boxes w \<and>
     forms_shown w1 = forms_shown w @ [r \<noteq> None]"
  "nOpenParam_edit e w = (q, w2) \<Longrightarrow>
     imread_calls w2 = imread_calls w \<and> critical_boxes w2 = critical_boxes w \<and>
     forms_shown w2 = forms_shown w @ [q \<noteq> None]"
  by (auto simp: OpenParam_edit_def nOpenParam_edit_def Let_def imread_calls_def
        critical_boxes_def forms_shown_def events_def emit_def map_filter_append)

lemma raw_ask_calls:
  assumes "raw_ask e several params for_all w = (r, w1)"
  shows "imread_calls w1 = imread_calls w \<and> critical_boxes w1 = critical_boxes w \<and>
         (case r of
            None \<Rightarrow> forms_shown w1 = forms_shown w @ [False]
          | Some (params1, for_all1) \<Rightarrow>
              params1 \<noteq> [] \<and>
              (if params = [] \<or> \<not> for_all then forms_shown w1 = forms_shown w @ [True]
               else forms_shown w1 = forms_shown w \<and> params1 = params))"
  using assms
  by (auto simp: raw_ask_def raw_params_def Let_def dest!: edit_calls
      split: if_splits prod.splits option.splits)

lemma read_one_Yield:
  assumes "read_one e app_name g RAW several f params for_all w = (Yield d params1 for_all1, w1)"
  shows "imread e f g (Some params1) = Inr d \<and>
         imread_calls w1 = imread_calls w @ [(f, g, Some params1)] \<and>
         critical_boxes w1 = critical_boxes w \<and>
         (\<exists>fm. forms_shown w1 = forms_shown w @ fm \<and> False \<notin> set fm)"
proof -
  obtain q w0 where ra:
    "(if RAW = True then raw_ask e several params for_all w else (Some (params, for_all), w)) = (q, w0)"
    by (cases "if RAW = True then raw_ask e several params for_all w else (Some (params, for_all), w)")
  have w0: "imread_calls w0 = imread_calls w \<and> critical_boxes w0 = critical_boxes w \<and>
            (q \<noteq> None \<longrightarrow> (\<exists>fm. forms_shown w0 = forms_shown w @ fm \<and> False \<notin> set fm))"
    using ra raw_ask_calls[of e several params for_all w q w0]
    by (auto split: if_splits option.splits)
  show ?thesis
    using assms ra w0
    by (auto simp: read_one_def Let_def imread_calls_emit critical_boxes_emit forms_shown_emit
          imread_calls_show_error critical_boxes_show_error forms_shown_show_error
        split: option.splits sum.splits if_splits)
qed

lemma read_one_Stop:
  assumes "read_one e app_name g RAW several f params for_all w = (Stop out, w1)"
  shows "(out = Returned () \<and> imread_calls w1 = imread_calls w \<and>
          critical_boxes w1 = critical_boxes w \<and> forms_shown w1 = forms_shown w @ [False]) \<or>
         (\<exists>params1 msg fm.
            imread_calls w1 = imread_calls w @ [(f, g, Some params1)] \<and>
            imread e f g (Some params1) = Inl msg \<and>
            forms_shown w1 = forms_shown w @ fm \<and> False \<notin> set fm \<and>
            (if isinstance_Exception msg
             then out = Returned () \<and>
                  critical_boxes w1 = critical_boxes w @
                    [(error_title e app_name, error_text e ''%s could not be opened:'' f msg)]
             else out = Propagated msg \<and> critical_boxes w1 = critical_boxes w))"
proof -
  obtain q w0 where ra:
    "(if RAW = True then raw_ask e several params for_all w else (Some (params, for_all), w)) = (q, w0)"
    by (cases "if RAW = True then raw_ask e several params for_all w else (Some (params, for_all), w)")
  have w0: "imread_calls w0 = imread_calls w \<and> critical_boxes w0 = critical_boxes w \<and>
            (q \<noteq> None \<longrightarrow> (\<exists>fm. forms_shown w0 = forms_shown w @ fm \<and> False \<notin> set fm)) \<and>
            (q = None \<longrightarrow> forms_shown w0 = forms_shown w @ [False])"
    using ra raw_ask_calls[of e several params for_all w q w0]
    by (auto split: if_splits option.splits)
  show ?thesis
  proof (cases q)
    case None
    then show ?thesis using assms ra w0 by (auto simp: read_one_def)
  next
    case (Some t)
    obtain params1 for_all1 where t: "t = (params1, for_all1)" by (cases t)
    obtain msg where msg: "imread e f g (Some params1) = Inl msg"
      using assms ra Some t by (auto simp: read_one_def Let_def split: sum.splits)
    obtain fm where fm: "forms_shown w0 = forms_shown w @ fm" "False \<notin> set fm"
      using w0 Some by auto
    have "imread_calls w1 = imread_calls w @ [(f, g, Some params1)] \<and>
          forms_shown w1 = forms_shown w @ fm \<and>
          (if isinstance_Exception msg
             then out = Returned () \<and>
                  critical_boxes w1 = critical_boxes w @
                    [(error_title e app_name, error_text e ''%s could not be opened:'' f msg)]
             else out = Propagated msg \<and> critical_boxes w1 = critical_boxes w)"
      using assms ra Some t msg w0 fm
      by (auto simp: read_one_def Let_def imread_calls_emit critical_boxes_emit forms_shown_emit
          imread_calls_show_error critical_boxes_show_error forms_shown_show_error
          split: if_splits)
    then show ?thesis using msg fm(2) by blast
  qed
qed

lemma read_all_prefix:
  "read_all e app_name g RAW several fs params for_all w = ((ys, out), w') \<Longrightarrow>
   map fst ys = take (length ys) fs"
proof (induction fs arbitrary: params for_all w ys out w')
  case Nil
  then show ?case by auto
next
  case (Cons f rest)
  obtain st w1 where ro: "read_one e app_name g RAW several f params for_all w = (st, w1)"
    by (cases "read_one e app_name g RAW several f params for_all w")
  show ?case
  proof (cases st)
    case (Stop out1)
    then show ?thesis using Cons.prems ro by auto
  next
    case (Yield d params1 for_all1)
    obtain ys2 out2 w2 where ra:
      "read_all e app_name g RAW several rest params1 for_all1 w1 = ((ys2, out2), w2)"
      by (cases "read_all e app_name g RAW several rest params1 for_all1 w1") auto
    have "ys = (f, d) # ys2" using Cons.prems ro Yield ra by auto
    then show ?thesis using Cons.IH[OF ra] by simp
  qed
qed

lemma read_all_calls:
  "read_all e app_name g RAW several fs params for_all w = ((ys, out), w') \<Longrightarrow>
   \<exists>calls. imread_calls w' = imread_calls w @ calls \<and>
     map (\<lambda>(f, d). (f, Inr d)) ys = take (length ys) (map (\<lambda>(f, g, ps). (f, imread e f g ps)) calls) \<and>
     map fst calls = take (length calls) fs \<and>
     (\<forall>c \<in> set calls. fst (snd c) = g)"
proof (induction fs arbitrary: params for_all w ys out w')
  case Nil
  then show ?case by auto
next
  case (Cons f rest)
  obtain st w1 where ro: "read_one e app_name g RAW several f params for_all w = (st, w1)"
    by (cases "read_one e app_name g RAW several f params for_all w")
  show ?case
  proof (cases st)
    case (Stop out1)
    have ys: "ys = []" "w' = w1" using Cons.prems ro Stop by auto
    from read_one_Stop[OF ro[unfolded Stop]]
    have "imread_calls w1 = imread_calls w \<or>
          (\<exists>params1. imread_calls w1 = imread_calls w @ [(f, g, Some params1)])"
      by auto
    then show ?thesis
    proof
      assume "imread_calls w1 = imread_calls w"
      then show ?thesis using ys by auto
    next
      assume "\<exists>params1. imread_calls w1 = imread_calls w @ [(f, g, Some params1)]"
      then obtain params1 where "imread_calls w1 = imread_calls w @ [(f, g, Some params1)]" ..
      then have "imread_calls w' = imread_calls w @ [(f, g, Some params1)] \<and>
           map (\<lambda>(f, d). (f, Inr d)) ys = take (length ys) (map (\<lambda>(f, g, ps). (f, imread e f g ps)) [(f, g, Some params1)]) \<and>
           map fst [(f, g, Some params1)] = take (length [(f, g, Some params1)]) (f # rest) \<and>
           (\<forall>c \<in> set [(f, g, Some params1)]. fst (snd c) = g)"
        using ys by simp
      then show ?thesis by blast
    qed
  next
    case (Yield d params1 for_all1)
    obtain ys2 out2 w2 where ra:
      "read_all e app_name g RAW several rest params1 for_all1 w1 = ((ys2, out2), w2)"
      by (cases "read_all e app_name g RAW several rest params1 for_all1 w1") auto
    have ys: "ys = (f, d) # ys2" "w' = w2" using Cons.prems ro Yield ra by auto
    note y = read_one_Yield[OF ro[unfolded Yield]]
    from Cons.IH[OF ra] obtain calls where calls:
      "imread_calls w2 = imread_calls w1 @ calls"
      "map (\<lambda>(f, d). (f, Inr d)) ys2 = take (length ys2) (map (\<lambda>(f, g, ps). (f, imread e f g ps)) calls)"
      "map fst calls = take (length calls) rest"
      "\<forall>c \<in> set calls. fst (snd c) = g"
      by blast
    let ?calls = "(f, g, Some params1) # calls"
    have "imread_calls w' = imread_calls w @ ?calls \<and>
          map (\<lambda>(f, d). (f, Inr d)) ys = take (length ys) (map (\<lambda>(f, g, ps). (f, imread e f g ps)) ?calls) \<and>
          map fst ?calls = take (length ?calls) (f # rest) \<and>
          (\<forall>c \<in> set ?calls. fst (snd c) = g)"
      using ys y calls by simp
    then show ?thesis by blast
  qed
qed

lemma loop_exit_Cons:
  "loop_exit e app_name g fs n out boxes forms \<Longrightarrow> False \<notin> set fm \<Longrightarrow>
   loop_exit e app_name g (f # fs) (Suc n) out boxes (fm @ forms)"
  by (auto simp: loop_exit_def)

lemma read_all_exit:
  "read_all e app_name g RAW several fs params for_all w = ((ys, out), w') \<Longrightarrow>
   \<exists>boxes forms. critical_boxes w' = critical_boxes w @ boxes \<and>
     forms_shown w' = forms_shown w @ forms \<and>
     loop_exit e app_name g fs (length ys) out boxes forms"
proof (induction fs arbitrary: params for_all w ys out w')
  case Nil
  then show ?case by (auto simp: loop_exit_def)
next
  case (Cons f rest)
  obtain st w1 where ro: "read_one e app_name g RAW several f params for_all w = (st, w1)"
    by (cases "read_one e app_name g RAW several f params for_all w")
  show ?case
  proof (cases st)
    case (Stop out1)
    have ys: "ys = []" "w' = w1" "out = out1" using Cons.prems ro Stop by auto
    from read_one_Stop[OF ro[unfolded Stop]]
    show ?thesis
    proof
      assume a: "out1 = Returned () \<and> imread_calls w1 = imread_calls w \<and>
          critical_boxes w1 = critical_boxes w \<and> forms_shown w1 = forms_shown w @ [False]"
      have "critical_boxes w' = critical_boxes w @ [] \<and> forms_shown w' = forms_shown w @ [False] \<and>
            loop_exit e app_name g (f # rest) (length ys) out [] [False]"
        using a ys by (simp add: loop_exit_def)
      then show ?thesis by blast
    next
      assume "\<exists>params1 msg fm.
            imread_calls w1 = imread_calls w @ [(f, g, Some params1)] \<and>
            imread e f g (Some params1) = Inl msg \<and>
            forms_shown w1 = forms_shown w @ fm \<and> False \<notin> set fm \<and>
            (if isinstance_Exception msg
             then out1 = Returned () \<and>
                  critical_boxes w1 = critical_boxes w @
                    [(error_title e app_name, error_text e ''%s could not be opened:'' f msg)]
             else out1 = Propagated msg \<and> critical_boxes w1 = critical_boxes w)"
      then obtain params1 msg fm where b:
            "imread e f g (Some params1) = Inl msg"
            "forms_shown w1 = forms_shown w @ fm" "False \<notin> set fm"
            "if isinstance_Exception msg
             then out1 = Returned () \<and>
                  critical_boxes w1 = critical_boxes w @
                    [(error_title e app_name, error_text e ''%s could not be opened:'' f msg)]
             else out1 = Propagated msg \<and> critical_boxes w1 = critical_boxes w"
        by blast
      show ?thesis
      proof (cases "isinstance_Exception msg")
        case True
        let ?b = "[(error_title e app_name, error_text e ''%s could not be opened:'' f msg)]"
        have "critical_boxes w' = critical_boxes w @ ?b \<and> forms_shown w' = forms_shown w @ fm \<and>
              loop_exit e app_name g (f # rest) (length ys) out ?b fm"
          using b ys True by (auto simp: loop_exit_def)
        then show ?thesis by blast
      next
        case False
        have "critical_boxes w' = critical_boxes w @ [] \<and> forms_shown w' = forms_shown w @ fm \<and>
              loop_exit e app_name g (f # rest) (length ys) out [] fm"
          using b ys False by (auto simp: loop_exit_def)
        then show ?thesis by blast
      qed
    qed
  next
    case (Yield d params1 for_all1)
    obtain ys2 out2 w2 where ra:
      "read_all e app_name g RAW several rest params1 for_all1 w1 = ((ys2, out2), w2)"
      by (cases "read_all e app_name g RAW several rest params1 for_all1 w1") auto
    have ys: "ys = (f, d) # ys2" "w' = w2" "out = out2" using Cons.prems ro Yield ra by auto
    from read_one_Yield[OF ro[unfolded Yield]] obtain fm where y:
      "critical_boxes w1 = critical_boxes w" "forms_shown w1 = forms_shown w @ fm" "False \<notin> set fm"
      by blast
    from Cons.IH[OF ra] obtain boxes forms where ih:
      "critical_boxes w2 = critical_boxes w1 @ boxes"
      "forms_shown w2 = forms_shown w1 @ forms"
      "loop_exit e app_name g rest (length ys2) out2 boxes forms"
      by blast
    have "critical_boxes w' = critical_boxes w @ boxes \<and>
          forms_shown w' = forms_shown w @ (fm @ forms) \<and>
          loop_exit e app_name g (f # rest) (length ys) out boxes (fm @ forms)"
      using ys y ih loop_exit_Cons[OF ih(3) y(3)] by simp
    then show ?thesis by blast
  qed
qed

text \<open>
  A cancelled form is the last call the loop makes: no form is shown after it, no file is
  read after it, and the pairs yielded are those of the files before it.
\<close>

lemma edit_events:
  "OpenParam_edit e w = (r, w1) \<Longrightarrow>
     \<exists>ev. events w1 = events w @ [ev] \<and> form_shown ev = Some (r \<noteq> None)"
  "nOpenParam_edit e w = (q, w2) \<Longrightarrow>
     \<exists>ev. events w2 = events w @ [ev] \<and> form_shown ev = Some (q \<noteq> None)"
  by (auto simp: OpenParam_edit_def nOpenParam_edit_def Let_def events_def emit_def)

lemma raw_ask_cancelled:
  assumes "raw_ask e several params for_all w = (None, w1)"
  shows "\<exists>ev. events w1 = events w @ [ev] \<and> form_shown ev = Some False"
proof (cases several)
  case True
  obtain q w2 where ed: "nOpenParam_edit e w = (q, w2)" by (cases "nOpenParam_edit e w")
  from edit_events(2)[OF ed] assms True ed show ?thesis
    by (auto simp: raw_ask_def split: if_splits option.splits)
next
  case False
  obtain q w2 where ed: "OpenParam_edit e w = (q, w2)" by (cases "OpenParam_edit e w")
  from edit_events(1)[OF ed] assms False ed show ?thesis
    by (auto simp: raw_ask_def split: if_splits option.splits)
qed

lemma raw_setup_cancelled:
  assumes "raw_setup e fs w = (None, w1)"
  shows "\<exists>ev. events w1 = events w @ [ev] \<and> form_shown ev = Some False"
proof -
  obtain q w2 where ed: "nOpenParam_edit e w = (q, w2)" by (cases "nOpenParam_edit e w")
  from edit_events(2)[OF ed] assms ed show ?thesis
    by (auto simp: raw_setup_def Let_def split: list.splits if_splits option.splits)
qed

lemma read_one_cancelled:
  assumes "read_one e app_name g RAW several f params for_all w = (Stop out, w1)"
    and "forms_shown w1 = forms_shown w @ [False]"
  shows "\<exists>ev. events w1 = events w @ [ev] \<and> form_shown ev = Some False"
proof -
  obtain q w0 where ra:
    "(if RAW = True then raw_ask e several params for_all w else (Some (params, for_all), w)) = (q, w0)"
    by (cases "if RAW = True then raw_ask e several params for_all w else (Some (params, for_all), w)")
  show ?thesis
  proof (cases q)
    case None
    then have "raw_ask e several params for_all w = (None, w0)" "w1 = w0"
      using ra assms(1) by (auto simp: read_one_def split: if_splits)
    then show ?thesis using raw_ask_cancelled by blast
  next
    case (Some t)
    have "q \<noteq> None \<longrightarrow> (\<exists>fm. forms_shown w0 = forms_shown w @ fm \<and> False \<notin> set fm)"
      using ra raw_ask_calls[of e several params for_all w q w0]
      by (auto split: if_splits option.splits)
    then obtain fm where fm: "forms_shown w0 = forms_shown w @ fm" "False \<notin> set fm"
      using Some by auto
    have "forms_shown w1 = forms_shown w0"
      using assms(1) ra Some
      by (auto simp: read_one_def Let_def forms_shown_emit forms_shown_show_error
          split: prod.splits sum.splits if_splits)
    then show ?thesis using fm assms(2) by auto
  qed
qed

lemma read_all_cancelled:
  "read_all e app_name g RAW several fs params for_all w = ((ys, out), w') \<Longrightarrow>
   \<exists>forms. forms_shown w' = forms_shown w @ forms \<and> False \<notin> set (butlast forms) \<and>
     (False \<in> set forms \<longrightarrow>
        out = Returned () \<and> length ys < length fs \<and>
        length (imread_calls w') = length (imread_calls w) + length ys \<and>
        critical_boxes w' = critical_boxes w \<and>
        events w' \<noteq> [] \<and> form_shown (last (events w')) = Some False)"
proof (induction fs arbitrary: params for_all w ys out w')
  case Nil
  then have "forms_shown w' = forms_shown w @ [] \<and> False \<notin> set (butlast ([]::bool list)) \<and>
             False \<notin> set ([]::bool list)"
    by simp
  then show ?case by blast
next
  case (Cons f rest)
  obtain st w1 where ro: "read_one e app_name g RAW several f params for_all w = (st, w1)"
    by (cases "read_one e app_name g RAW several f params for_all w")
  show ?case
  proof (cases st)
    case (Stop out1)
    have ys: "ys = []" "w' = w1" "out = out1" using Cons.prems ro Stop by auto
    from read_one_Stop[OF ro[unfolded Stop]]
    show ?thesis
    proof
      assume a: "out1 = Returned () \<and> imread_calls w1 = imread_calls w \<and>
          critical_boxes w1 = critical_boxes w \<and> forms_shown w1 = forms_shown w @ [False]"
      then obtain ev where ev: "events w1 = events w @ [ev]" "form_shown ev = Some False"
        using read_one_cancelled[OF ro[unfolded Stop]] by blast
      have "forms_shown w' = forms_shown w @ [False] \<and> False \<notin> set (butlast [False]) \<and>
            (False \<in> set [False] \<longrightarrow>
               out = Returned () \<and> length ys < length (f # rest) \<and>
               length (imread_calls w') = length (imread_calls w) + length ys \<and>
               critical_boxes w' = critical_boxes w \<and>
               events w' \<noteq> [] \<and> form_shown (last (events w')) = Some False)"
        using a ys ev by simp
      then show ?thesis by blast
    next
      assume "\<exists>params1 msg fm.
            imread_calls w1 = imread_calls w @ [(f, g, Some params1)] \<and>
            imread e f g (Some params1) = Inl msg \<and>
            forms_shown w1 = forms_shown w @ fm \<and> False \<notin> set fm \<and>
            (if isinstance_Exception msg
             then out1 = Returned () \<and>
                  critical_boxes w1 = critical_boxes w @
                    [(error_title e app_name, error_text e ''%s could not be opened:'' f msg)]
             else out1 = Propagated msg \<and> critical_boxes w1 = critical_boxes w)"
      then obtain fm where fm: "forms_shown w1 = forms_shown w @ fm" "False \<notin> set fm"
        by blast
      have "False \<notin> set (butlast fm)" using fm(2) by (meson in_set_butlastD)
      then have "forms_shown w' = forms_shown w @ fm \<and> False \<notin> set (butlast fm) \<and>
                 False \<notin> set fm"
        using fm ys by simp
      then show ?thesis by blast
    qed
  next
    case (Yield d params1 for_all1)
    obtain ys2 out2 w2 where ra:
      "read_all e app_name g RAW several rest params1 for_all1 w1 = ((ys2, out2), w2)"
      by (cases "read_all e app_name g RAW several rest params1 for_all1 w1") auto
    have ys: "ys = (f, d) # ys2" "w' = w2" "out = out2" using Cons.prems ro Yield ra by auto
    from read_one_Yield[OF ro[unfolded Yield]] obtain fm where y:
      "imread_calls w1 = imread_calls w @ [(f, g, Some params1)]"
      "critical_boxes w1 = critical_boxes w" "forms_shown w1 = forms_shown w @ fm"
      "False \<notin> set fm"
      by blast
    from Cons.IH[OF ra] obtain forms where ih:
      "forms_shown w2 = forms_shown w1 @ forms" "False \<notin> set (butlast forms)"
      "False \<in> set forms \<longrightarrow>
         out2 = Returned () \<and> length ys2 < length rest \<and>
         length (imread_calls w2) = length (imread_calls w1) + length ys2 \<and>
         critical_boxes w2 = critical_boxes w1 \<and>
         events w2 \<noteq> [] \<and> form_shown (last (events w2)) = Some False"
      by blast
    have bl: "False \<notin> set (butlast (fm @ forms))"
      using y(4) ih(2) by (auto simp: butlast_append dest: in_set_butlastD)
    have "forms_shown w' = forms_shown w @ (fm @ forms) \<and> False \<notin> set (butlast (fm @ forms)) \<and>
          (False \<in> set (fm @ forms) \<longrightarrow>
             out = Returned () \<and> length ys < length (f # rest) \<and>
             length (imread_calls w') = length (imread_calls w) + length ys \<and>
             critical_boxes w' = critical_boxes w \<and>
             events w' \<noteq> [] \<and> form_shown (last (events w')) = Some False)"
      using ys y ih bl by auto
    then show ?thesis by blast
  qed
qed

lemma raw_setup_calls:
  assumes "raw_setup e fs w = (q, w1)"
  shows "imread_calls w1 = imread_calls w \<and> critical_boxes w1 = critical_boxes w \<and>
         (case q of
            None \<Rightarrow> fs \<noteq> [] \<and> is_raw e (hd fs) \<and> forms_shown w1 = forms_shown w @ [False]
          | Some (RAW, params, for_all) \<Rightarrow>
              RAW = (fs \<noteq> [] \<and> is_raw e (hd fs)) \<and>
              (if RAW \<and> length fs > 1
               then forms_shown w1 = forms_shown w @ [True] \<and> params \<noteq> []
               else forms_shown w1 = forms_shown w \<and> params = []))"
  using assms
  by (auto simp: raw_setup_def raw_params_def Let_def dest!: edit_calls
      split: if_splits prod.splits option.splits list.splits)

lemma images_dialog_accepted:
  assumes "getopenfilenames e (tr e ''Open'') basedir dtype0 (s0\<lparr>sys_stdout := PyNone\<rparr>) =
             (Inr filenames, s1)"
  shows "\<exists>w2. call_dialog (GetOpenFileNames (tr e ''Open'') basedir dtype0)
                (getopenfilenames e (tr e ''Open'') basedir dtype0)
                ((init_world s0)\<lparr>sys := s0\<lparr>sys_stdout := PyNone\<rparr>\<rparr>) = (Inr filenames, w2) \<and>
              events w2 = [GetOpenFileNames (tr e ''Open'') basedir dtype0]"
  using assms
  by (simp add: call_dialog_def init_world_def emit_def events_def Let_def)

lemma events_sys_update: "events (w\<lparr>sys := s\<rparr>) = events w"
  by (simp add: events_def)

subsection \<open>exec_images_open_dialog: claims C5, C6, C7\<close>

text \<open>
  Claim C5. When the dialog gives the list \<open>filenames\<close>, the generator yields pairs
  \<open>(filename, data)\<close> for the selected files in selection order, one per file from the
  first one on: \<open>io.imread\<close> is called on the selected names in that order, and the data
  of each pair yielded is what \<open>io.imread\<close> returned for its file. When every read
  succeeds and no form is cancelled there is one pair for every file. Otherwise the
  generator ends early, in one of three ways: at the first file whose read raises an
  exception (an instance of \<open>Exception\<close>), after one critical message box about that
  file; when a raw-parameter form is cancelled; or with an exception raised by the read
  that \<open>except Exception\<close> does not catch. A cancelled form always ends the generator:
  only the form shown last can be a cancelled one, and when a form is cancelled the
  generator returns with that form as its last call, no file is read or yielded from then
  on (there are as many reads as pairs yielded, fewer than files selected), and no
  message box is shown.
\<close>

theorem images_are_yielded_in_order:
  assumes "getopenfilenames e (tr e ''Open'') basedir dtype0 (s0\<lparr>sys_stdout := PyNone\<rparr>) =
             (Inr filenames, s1)"
  shows "(case exec_images_open_dialog e basedir app_name to_grayscale dtype0 s0 of
            ((yields, out), w') \<Rightarrow>
              map fst yields = take (length yields) filenames \<and>
              map fst (imread_calls w') = take (length (imread_calls w')) filenames \<and>
              map (\<lambda>(f, d). (f, Inr d)) yields =
                take (length yields) (map (\<lambda>(f, g, ps). (f, imread e f g ps)) (imread_calls w')) \<and>
              ((\<forall>f ps. f \<in> set filenames \<longrightarrow> (\<exists>d. imread e f to_grayscale (Some ps) = Inr d)) \<and>
               False \<notin> set (forms_shown w') \<longrightarrow> map fst yields = filenames) \<and>
              False \<notin> set (butlast (forms_shown w')) \<and>
              (False \<in> set (forms_shown w') \<longrightarrow>
                 out = Returned () \<and> length yields < length filenames \<and>
                 length (imread_calls w') = length yields \<and> critical_boxes w' = [] \<and>
                 form_shown (last (events w')) = Some False) \<and>
              ((length yields = length filenames \<and> out = Returned () \<and> critical_boxes w' = [] \<and>
                False \<notin> set (forms_shown w')) \<or>
               (length yields < length filenames \<and> out = Returned () \<and>
                False \<notin> set (forms_shown w') \<and>
                (\<exists>msg ps.
                   imread e (filenames ! length yields) to_grayscale (Some ps) = Inl msg \<and>
                   isinstance_Exception msg \<and>
                   critical_boxes w' =
                     [(error_title e app_name,
                       error_text e ''%s could not be opened:'' (filenames ! length yields) msg)])) \<or>
               (length yields < length filenames \<and> out = Returned () \<and> critical_boxes w' = [] \<and>
                forms_shown w' \<noteq> [] \<and> last (forms_shown w') = False) \<or>
               (length yields < length filenames \<and> critical_boxes w' = [] \<and>
                False \<notin> set (forms_shown w') \<and>
                (\<exists>exn ps.
                   out = Propagated exn \<and> \<not> isinstance_Exception exn \<and>
                   imread e (filenames ! length yields) to_grayscale (Some ps) = Inl exn))))"
proof -
  from images_dialog_accepted[OF assms] obtain w2 where
    cd: "call_dialog (GetOpenFileNames (tr e ''Open'') basedir dtype0)
           (getopenfilenames e (tr e ''Open'') basedir dtype0)
           ((init_world s0)\<lparr>sys := s0\<lparr>sys_stdout := PyNone\<rparr>\<rparr>) = (Inr filenames, w2)"
    and ev2: "events w2 = [GetOpenFileNames (tr e ''Open'') basedir dtype0]"
    by blast
  let ?w3 = "w2\<lparr>sys := s0\<rparr>"
  have w3: "imread_calls ?w3 = []" "critical_boxes ?w3 = []" "forms_shown ?w3 = []"
    using ev2 by (simp_all add: imread_calls_def critical_boxes_def forms_shown_def events_sys_update)
  obtain q w4 where rs: "raw_setup e filenames ?w3 = (q, w4)"
    by (cases "raw_setup e filenames ?w3")
  note s4 = raw_setup_calls[OF rs]
  show ?thesis
  proof (cases q)
    case None
    have res: "exec_images_open_dialog e basedir app_name to_grayscale dtype0 s0 =
                 (([], Returned ()), w4)"
      using cd rs None by (simp add: exec_images_open_dialog_def Let_def)
    from raw_setup_cancelled[OF rs[unfolded None]] obtain ev where
      ev: "events w4 = events ?w3 @ [ev]" "form_shown ev = Some False"
      by blast
    show ?thesis
      using s4 None w3 ev by (simp add: res)
  next
    case (Some t)
    obtain RAW params for_all where t: "t = (RAW, params, for_all)" by (cases t)
    obtain ys out w' where ra:
      "read_all e app_name to_grayscale RAW (length filenames > 1) filenames params for_all w4 =
         ((ys, out), w')"
      by (cases "read_all e app_name to_grayscale RAW (length filenames > 1) filenames params
                   for_all w4") auto
    have res: "exec_images_open_dialog e basedir app_name to_grayscale dtype0 s0 =
                 ((ys, out), w')"
      using cd rs Some t ra by (simp add: exec_images_open_dialog_def Let_def)
    have w4: "imread_calls w4 = []" "critical_boxes w4 = []"
      using s4 w3 by simp_all
    obtain pre where pre: "forms_shown w4 = pre" "False \<notin> set pre"
      using s4 Some t w3 by (auto split: if_splits)
    note p1 = read_all_prefix[OF ra]
    from read_all_calls[OF ra] w4 have p2:
      "map (\<lambda>(f, d). (f, Inr d)) ys =
         take (length ys) (map (\<lambda>(f, g, ps). (f, imread e f g ps)) (imread_calls w'))"
      "map fst (imread_calls w') = take (length (imread_calls w')) filenames"
      by auto
    from read_all_exit[OF ra] w4 pre obtain forms where ex:
      "forms_shown w' = pre @ forms"
      "loop_exit e app_name to_grayscale filenames (length ys) out (critical_boxes w') forms"
      by auto
    from read_all_cancelled[OF ra] w4 pre ex(1) have cn:
      "False \<notin> set (butlast forms)"
      "False \<in> set forms \<longrightarrow>
         out = Returned () \<and> length ys < length filenames \<and>
         length (imread_calls w') = length ys \<and> critical_boxes w' = [] \<and>
         form_shown (last (events w')) = Some False"
      by auto
    have mem: "(False \<in> set (forms_shown w')) = (False \<in> set forms)"
      using ex(1) pre(2) by auto
    have p5: "False \<notin> set (butlast (forms_shown w'))"
      using ex(1) pre(2) cn(1) by (auto simp: butlast_append dest: in_set_butlastD)
    have p6: "False \<in> set (forms_shown w') \<longrightarrow>
         out = Returned () \<and> length ys < length filenames \<and>
         length (imread_calls w') = length ys \<and> critical_boxes w' = [] \<and>
         form_shown (last (events w')) = Some False"
      using cn(2) mem by simp
    have p3:
      "(length ys = length filenames \<and> out = Returned () \<and> critical_boxes w' = [] \<and>
        False \<notin> set (forms_shown w')) \<or>
       (length ys < length filenames \<and> out = Returned () \<and>
        False \<notin> set (forms_shown w') \<and>
        (\<exists>msg ps.
           imread e (filenames ! length ys) to_grayscale (Some ps) = Inl msg \<and>
           isinstance_Exception msg \<and>
           critical_boxes w' =
             [(error_title e app_name,
               error_text e ''%s could not be opened:'' (filenames ! length ys) msg)])) \<or>
       (length ys < length filenames \<and> out = Returned () \<and> critical_boxes w' = [] \<and>
        forms_shown w' \<noteq> [] \<and> last (forms_shown w') = False) \<or>
       (length ys < length filenames \<and> critical_boxes w' = [] \<and>
        False \<notin> set (forms_shown w') \<and>
        (\<exists>exn ps.
           out = Propagated exn \<and> \<not> isinstance_Exception exn \<and>
           imread e (filenames ! length ys) to_grayscale (Some ps) = Inl exn))"
      using ex(2) pre(2) unfolding loop_exit_def by (auto simp: ex(1))
    have p4: "map fst ys = filenames"
      if a: "\<forall>f ps. f \<in> set filenames \<longrightarrow> (\<exists>d. imread e f to_grayscale (Some ps) = Inr d)"
        and b: "False \<notin> set (forms_shown w')"
    proof -
      have "length ys = length filenames"
      proof (rule ccontr)
        assume "length ys \<noteq> length filenames"
        then have lt: "length ys < length filenames" using p3 by auto
        then have mem: "filenames ! length ys \<in> set filenames" by simp
        have nf: "imread e (filenames ! length ys) to_grayscale (Some ps) \<noteq> Inl m" for ps m
          using a mem by (metis sum.distinct(1))
        have "forms \<noteq> [] \<and> last forms = False"
          using ex(2) lt nf unfolding loop_exit_def by auto
        then have "False \<in> set forms" using last_in_set by metis
        then show False using b ex(1) by simp
      qed
      then show ?thesis using p1 by simp
    qed
    show ?thesis
      using p1 p2 p3 p4 p5 p6 by (simp add: res)
  qed
qed

text \<open>
  The theorem at three files of which the second cannot be read, at three files that can
  all be read, and at three raw files where the form is accepted before the loop and for
  the first file and cancelled for the second: the first file alone is read and yielded.
\<close>

theorem images_are_yielded_in_order_witness:
  "(case exec_images_open_dialog
           (images_env [''/data/a.png'', ''/data/b.png'', ''/data/c.png''] ''/data/b.png''
              (\<lambda>n. None))
           ''/data'' None True None streams0 of
      ((yields, out), w') \<Rightarrow>
        yields = [(''/data/a.png'', uint8_image)] \<and>
        out = Returned () \<and>
        map fst (imread_calls w') = [''/data/a.png'', ''/data/b.png''] \<and>
        critical_boxes w' =
          [(''Error'', ''b.png could not be opened:'' @ [CHR 0x0A] @ ''truncated file'')]) \<and>
   (case exec_images_open_dialog
           (images_env [''/data/a.png'', ''/data/b.png'', ''/data/c.png''] [] (\<lambda>n. None))
           ''/data'' None True None streams0 of
      ((yields, out), w') \<Rightarrow>
        map fst yields = [''/data/a.png'', ''/data/b.png'', ''/data/c.png''] \<and>
        out = Returned ()) \<and>
   (case exec_images_open_dialog
           (images_env [''/data/a.raw'', ''/data/b.raw'', ''/data/c.raw''] [] cancelling_form)
           ''/data'' None True None streams0 of
      ((yields, out), w') \<Rightarrow>
        forms_shown w' = [True, True, False] \<and>
        yields = [(''/data/a.raw'', uint8_image)] \<and>
        out = Returned () \<and>
        map fst (imread_calls w') = [''/data/a.raw''] \<and>
        critical_boxes w' = [] \<and>
        last (events w') = EditnOpenParam ''Open Raw Images'' None)"
proof -
  let ?names = "[''/data/a.png'', ''/data/b.png'', ''/data/c.png'']"
  let ?raws = "[''/data/a.raw'', ''/data/b.raw'', ''/data/c.raw'']"
  let ?e1 = "images_env ?names ''/data/b.png'' (\<lambda>n. None)"
  let ?e2 = "images_env ?names [] (\<lambda>n. None)"
  let ?e3 = "images_env ?raws [] cancelling_form"
  have h1: "getopenfilenames ?e1 (tr ?e1 ''Open'') ''/data'' None (streams0\<lparr>sys_stdout := PyNone\<rparr>) =
              (Inr ?names, streams0\<lparr>sys_stdout := PyNone, sys_stderr := PyNone\<rparr>)"
    by (simp add: images_env_def quiet_env_def)
  have h2: "getopenfilenames ?e2 (tr ?e2 ''Open'') ''/data'' None (streams0\<lparr>sys_stdout := PyNone\<rparr>) =
              (Inr ?names, streams0\<lparr>sys_stdout := PyNone, sys_stderr := PyNone\<rparr>)"
    by (simp add: images_env_def quiet_env_def)
  have h3: "getopenfilenames ?e3 (tr ?e3 ''Open'') ''/data'' None (streams0\<lparr>sys_stdout := PyNone\<rparr>) =
              (Inr ?raws, streams0\<lparr>sys_stdout := PyNone, sys_stderr := PyNone\<rparr>)"
    by (simp add: images_env_def quiet_env_def)
  show ?thesis
    using images_are_yielded_in_order[OF h1, where app_name = None and to_grayscale = True]
      images_are_yielded_in_order[OF h2, where app_name = None and to_grayscale = True]
      images_are_yielded_in_order[OF h3, where app_name = None and to_grayscale = True]
    by (simp add: run_defs)
qed

lemma raw_calls_emit:
  "raw_calls RAW w \<Longrightarrow> (q \<noteq> []) = RAW \<Longrightarrow> raw_calls RAW (emit (ImRead f g (Some q)) w)"
  by (auto simp: raw_calls_def imread_calls_emit)

lemma raw_calls_show_error:
  "raw_calls RAW (show_error e app_name msgid filename msg w) = raw_calls RAW w"
  by (simp add: raw_calls_def imread_calls_show_error)

lemma read_one_raw:
  assumes "read_one e app_name g RAW several f params for_all w = (st, w1)"
    and "RAW \<or> params = []"
    and "raw_calls RAW w"
  shows "raw_calls RAW w1 \<and>
         (\<not> RAW \<longrightarrow> forms_shown w1 = forms_shown w) \<and>
         (RAW \<and> params = [] \<longrightarrow> forms_shown w1 \<noteq> []) \<and>
         (forms_shown w \<noteq> [] \<longrightarrow> forms_shown w1 \<noteq> []) \<and>
         (\<forall>d params1 for_all1. st = Yield d params1 for_all1 \<longrightarrow> RAW \<or> params1 = [])"
proof -
  obtain q w0 where ra:
    "(if RAW = True then raw_ask e several params for_all w else (Some (params, for_all), w)) = (q, w0)"
    by (cases "if RAW = True then raw_ask e several params for_all w else (Some (params, for_all), w)")
  have w0: "raw_calls RAW w0 \<and>
            (\<not> RAW \<longrightarrow> forms_shown w0 = forms_shown w \<and> q = Some (params, for_all)) \<and>
            (RAW \<and> params = [] \<longrightarrow> forms_shown w0 \<noteq> []) \<and>
            (forms_shown w \<noteq> [] \<longrightarrow> forms_shown w0 \<noteq> []) \<and>
            (\<forall>params1 for_all1. q = Some (params1, for_all1) \<longrightarrow> (params1 \<noteq> []) = RAW)"
    using ra raw_ask_calls[of e several params for_all w q w0] assms(2,3)
    by (auto simp: raw_calls_def split: if_splits option.splits)
  show ?thesis
    using assms(1) ra w0
    by (auto simp: read_one_def Let_def raw_calls_emit raw_calls_show_error forms_shown_emit
          forms_shown_show_error
        split: option.splits sum.splits if_splits)
qed

lemma read_all_raw:
  "read_all e app_name g RAW several fs params for_all w = (res, w') \<Longrightarrow>
   RAW \<or> params = [] \<Longrightarrow> raw_calls RAW w \<Longrightarrow>
   raw_calls RAW w' \<and>
   (\<not> RAW \<longrightarrow> forms_shown w' = forms_shown w) \<and>
   (RAW \<and> params = [] \<and> fs \<noteq> [] \<longrightarrow> forms_shown w' \<noteq> []) \<and>
   (forms_shown w \<noteq> [] \<longrightarrow> forms_shown w' \<noteq> [])"
proof (induction fs arbitrary: params for_all w res w')
  case Nil
  then show ?case by auto
next
  case (Cons f rest)
  obtain st w1 where ro: "read_one e app_name g RAW several f params for_all w = (st, w1)"
    by (cases "read_one e app_name g RAW several f params for_all w")
  note s1 = read_one_raw[OF ro Cons.prems(2,3)]
  show ?case
  proof (cases st)
    case (Stop out1)
    then have "w' = w1" using Cons.prems(1) ro by auto
    then show ?thesis using s1 by auto
  next
    case (Yield d params1 for_all1)
    obtain r2 w2 where ra:
      "read_all e app_name g RAW several rest params1 for_all1 w1 = (r2, w2)"
      by (cases "read_all e app_name g RAW several rest params1 for_all1 w1")
    have w': "w' = w2" using Cons.prems(1) ro Yield ra by (auto split: prod.splits)
    have p1: "RAW \<or> params1 = []" using s1 Yield by blast
    have c1: "raw_calls RAW w1" using s1 by blast
    from Cons.IH[OF ra p1 c1] s1 show ?thesis unfolding w' by auto
  qed
qed

text \<open>
  Claim C6. When the dialog gives the list \<open>filenames\<close>, a raw-parameter form is shown
  if and only if the list is not empty, the extension of its first name is \<open>.bin\<close>,
  \<open>.raw\<close>, \<open>.img\<close> or \<open>.imd\<close>, and no file exists that is named like the first one
  with the extension \<open>.inf\<close>. This decision holds for every file: each \<open>io.imread\<close>
  is given parameters from a form (a non-empty dictionary) when it is true and the empty
  dictionary when it is false, whatever the extension of the file read.
\<close>

theorem raw_form_is_decided_by_first_file:
  assumes "getopenfilenames e (tr e ''Open'') basedir dtype0 (s0\<lparr>sys_stdout := PyNone\<rparr>) =
             (Inr filenames, s1)"
  shows "(case exec_images_open_dialog e basedir app_name to_grayscale dtype0 s0 of
            ((yields, out), w') \<Rightarrow>
              (let RAW = (filenames \<noteq> [] \<and>
                          (case splitext e (hd filenames) of
                             (base, ext) \<Rightarrow>
                               (ext = ''.bin'' \<or> ext = ''.raw'' \<or> ext = ''.img'' \<or> ext = ''.imd'') \<and>
                               \<not> isfile e (base @ ''.inf'')))
               in (forms_shown w' \<noteq> []) = RAW \<and>
                  (\<forall>(f, g, ps) \<in> set (imread_calls w'). \<exists>q. ps = Some q \<and> (q \<noteq> []) = RAW)))"
proof -
  from images_dialog_accepted[OF assms] obtain w2 where
    cd: "call_dialog (GetOpenFileNames (tr e ''Open'') basedir dtype0)
           (getopenfilenames e (tr e ''Open'') basedir dtype0)
           ((init_world s0)\<lparr>sys := s0\<lparr>sys_stdout := PyNone\<rparr>\<rparr>) = (Inr filenames, w2)"
    and ev2: "events w2 = [GetOpenFileNames (tr e ''Open'') basedir dtype0]"
    by blast
  let ?w3 = "w2\<lparr>sys := s0\<rparr>"
  let ?RAW = "filenames \<noteq> [] \<and> is_raw e (hd filenames)"
  have raw: "?RAW = (filenames \<noteq> [] \<and>
                          (case splitext e (hd filenames) of
                             (base, ext) \<Rightarrow>
                               (ext = ''.bin'' \<or> ext = ''.raw'' \<or> ext = ''.img'' \<or> ext = ''.imd'') \<and>
                               \<not> isfile e (base @ ''.inf'')))"
    by (auto simp: is_raw_def split: prod.splits)
  have w3: "imread_calls ?w3 = []" "forms_shown ?w3 = []"
    using ev2 by (simp_all add: imread_calls_def forms_shown_def events_sys_update)
  obtain q w4 where rs: "raw_setup e filenames ?w3 = (q, w4)"
    by (cases "raw_setup e filenames ?w3")
  note s4 = raw_setup_calls[OF rs]
  have goal: "(forms_shown w' \<noteq> []) = ?RAW \<and> raw_calls ?RAW w'"
    if res: "exec_images_open_dialog e basedir app_name to_grayscale dtype0 s0 = ((ys, out), w')"
    for ys out w'
  proof (cases q)
    case None
    have "w' = w4" using res cd rs None by (simp add: exec_images_open_dialog_def Let_def)
    then show ?thesis using s4 None w3 by (simp add: raw_calls_def)
  next
    case (Some t)
    obtain RAW params for_all where t: "t = (RAW, params, for_all)" by (cases t)
    have ra:
      "read_all e app_name to_grayscale RAW (length filenames > 1) filenames params for_all w4 =
         ((ys, out), w')"
      using res cd rs Some t by (simp add: exec_images_open_dialog_def Let_def)
    have R: "RAW = ?RAW" using s4 Some t by simp
    have c4: "raw_calls RAW w4" using s4 w3 by (simp add: raw_calls_def)
    have p4: "RAW \<or> params = []" using s4 Some t by (auto split: if_splits)
    have f4: "\<not> RAW \<longrightarrow> forms_shown w4 = []" using s4 Some t w3 by (auto split: if_splits)
    have g4: "RAW \<and> params \<noteq> [] \<longrightarrow> forms_shown w4 \<noteq> []"
      using s4 Some t w3 by (auto split: if_splits)
    have ne: "RAW \<longrightarrow> filenames \<noteq> []" using R by simp
    from read_all_raw[OF ra p4 c4] f4 g4 ne
    have "(forms_shown w' \<noteq> []) = RAW \<and> raw_calls RAW w'" by auto
    then show ?thesis using R by simp
  qed
  obtain ys out w' where
    res: "exec_images_open_dialog e basedir app_name to_grayscale dtype0 s0 = ((ys, out), w')"
    by (cases "exec_images_open_dialog e basedir app_name to_grayscale dtype0 s0") auto
  show ?thesis
    using goal[OF res] raw by (auto simp: res raw_calls_def Let_def)
qed


text \<open>
  The theorem at \<open>a.raw\<close> followed by \<open>b.png\<close>, where the form is shown and both
  files are read with its parameters, and at \<open>a.png\<close> followed by \<open>b.raw\<close>, where no
  form is shown and both files are read with the empty dictionary.
\<close>

theorem raw_form_is_decided_by_first_file_witness:
  "(case exec_images_open_dialog
           (images_env [''/data/a.raw'', ''/data/b.png''] [] swapped_form)
           ''/data'' None True None streams0 of
      ((yields, out), w') \<Rightarrow>
        forms_shown w' = [True] \<and>
        map (\<lambda>(f, g, ps). (f, ps \<noteq> Some [])) (imread_calls w') =
          [(''/data/a.raw'', True), (''/data/b.png'', True)]) \<and>
   (case exec_images_open_dialog
           (images_env [''/data/a.png'', ''/data/b.raw''] [] swapped_form)
           ''/data'' None True None streams0 of
      ((yields, out), w') \<Rightarrow>
        forms_shown w' = [] \<and>
        imread_calls w' = [(''/data/a.png'', True, Some []), (''/data/b.raw'', True, Some [])])"
proof -
  let ?e1 = "images_env [''/data/a.raw'', ''/data/b.png''] [] swapped_form"
  let ?e2 = "images_env [''/data/a.png'', ''/data/b.raw''] [] swapped_form"
  have h1: "getopenfilenames ?e1 (tr ?e1 ''Open'') ''/data'' None (streams0\<lparr>sys_stdout := PyNone\<rparr>) =
              (Inr [''/data/a.raw'', ''/data/b.png''],
               streams0\<lparr>sys_stdout := PyNone, sys_stderr := PyNone\<rparr>)"
    by (simp add: images_env_def quiet_env_def)
  have h2: "getopenfilenames ?e2 (tr ?e2 ''Open'') ''/data'' None (streams0\<lparr>sys_stdout := PyNone\<rparr>) =
              (Inr [''/data/a.png'', ''/data/b.raw''],
               streams0\<lparr>sys_stdout := PyNone, sys_stderr := PyNone\<rparr>)"
    by (simp add: images_env_def quiet_env_def)
  show ?thesis
    using raw_form_is_decided_by_first_file[OF h1, where app_name = None and to_grayscale = True]
      raw_form_is_decided_by_first_file[OF h2, where app_name = None and to_grayscale = True]
    by (simp add: run_defs)
qed

lemma params_in_force_append:
  "params_in_force m cur (xs @ ys) = params_in_force m (params_in_force m cur xs) ys"
  by (induction xs arbitrary: cur) auto

lemma follows_forms_append:
  "follows_forms m cur (xs @ ys) =
     (follows_forms m cur xs \<and> follows_forms m (params_in_force m cur xs) ys)"
  by (induction xs arbitrary: cur) auto

lemma params_in_force_no_form:
  "List.map_filter accepted_form xs = [] \<Longrightarrow> params_in_force m cur xs = cur"
  by (induction xs arbitrary: cur) (auto simp: List.map_filter_simps split: option.splits)

lemma raw_params_truncate: "raw_params m (OpenParam.truncate param) = raw_params m param"
  by (simp add: raw_params_def OpenParam.truncate_def)

lemma tracked_emit:
  "tracked m params w \<Longrightarrow> accepted_form ev = None \<Longrightarrow> imread_call ev = None \<Longrightarrow>
   tracked m params (emit ev w)"
  by (cases ev) (auto simp: tracked_def events_emit follows_forms_append params_in_force_append)

lemma tracked_imread:
  "tracked m params w \<Longrightarrow> tracked m params (emit (ImRead f g (Some params)) w)"
  by (auto simp: tracked_def events_emit follows_forms_append params_in_force_append)

lemma tracked_show_error:
  "tracked m params w \<Longrightarrow> tracked m params (show_error e app_name msgid filename msg w)"
  by (simp add: show_error_def tracked_emit)

lemma tracked_edit:
  assumes "tracked m params w"
  shows "OpenParam_edit e w = (r, w1) \<Longrightarrow>
           tracked m (case r of None \<Rightarrow> params | Some param \<Rightarrow> raw_params m param) w1"
    and "nOpenParam_edit e w = (q, w2) \<Longrightarrow>
           tracked m (case q of None \<Rightarrow> params | Some param \<Rightarrow> raw_params m param) w2"
  using assms
  by (auto simp: OpenParam_edit_def nOpenParam_edit_def Let_def tracked_def events_def emit_def
        follows_forms_append params_in_force_append raw_params_truncate
      split: option.splits)

lemma raw_ask_tracked:
  assumes "raw_ask e several params for_all w = (r, w1)" and "tracked (native e) params w"
  shows "case r of None \<Rightarrow> tracked (native e) params w1
         | Some (params1, for_all1) \<Rightarrow> tracked (native e) params1 w1"
proof (cases "params = [] \<or> \<not> for_all")
  case False
  then show ?thesis using assms by (auto simp: raw_ask_def)
next
  case ask: True
  show ?thesis
  proof (cases several)
    case True
    obtain q w2 where ed: "nOpenParam_edit e w = (q, w2)" by (cases "nOpenParam_edit e w")
    from tracked_edit(2)[OF assms(2) ed] assms(1) ask True ed
    show ?thesis by (auto simp: raw_ask_def split: option.splits)
  next
    case False
    obtain q w2 where ed: "OpenParam_edit e w = (q, w2)" by (cases "OpenParam_edit e w")
    from tracked_edit(1)[OF assms(2) ed] assms(1) ask False ed
    show ?thesis by (auto simp: raw_ask_def split: option.splits)
  qed
qed

lemma read_one_tracked:
  assumes "read_one e app_name g RAW several f params for_all w = (st, w1)"
    and "tracked (native e) params w"
  shows "case st of Yield d params1 for_all1 \<Rightarrow> tracked (native e) params1 w1
         | Stop out \<Rightarrow> \<exists>params1. tracked (native e) params1 w1"
proof -
  obtain q w0 where ra:
    "(if RAW = True then raw_ask e several params for_all w else (Some (params, for_all), w)) = (q, w0)"
    by (cases "if RAW = True then raw_ask e several params for_all w else (Some (params, for_all), w)")
  have w0: "case q of None \<Rightarrow> tracked (native e) params w0
            | Some (params1, for_all1) \<Rightarrow> tracked (native e) params1 w0"
    using ra raw_ask_tracked[of e several params for_all w q w0] assms(2)
    by (auto split: if_splits)
  show ?thesis
  proof (cases q)
    case None
    then show ?thesis using assms(1) ra w0 by (auto simp: read_one_def)
  next
    case (Some t)
    obtain params1 for_all1 where t: "t = (params1, for_all1)" by (cases t)
    have tr: "tracked (native e) params1 (emit (ImRead f g (Some params1)) w0)"
      using w0 Some t by (simp add: tracked_imread)
    let ?w = "emit (ImRead f g (Some params1)) w0"
    have "(\<exists>d. st = Yield d params1 for_all1 \<and> w1 = ?w) \<or>
          (\<exists>out. st = Stop out \<and>
             (w1 = ?w \<or> (\<exists>msg. w1 = show_error e app_name ''%s could not be opened:'' f msg ?w)))"
      using assms(1) ra Some t
      by (auto simp: read_one_def Let_def split: sum.splits if_splits)
    then show ?thesis
      using tr tracked_show_error[OF tr] by fastforce
  qed
qed

lemma read_all_tracked:
  "read_all e app_name g RAW several fs params for_all w = (res, w') \<Longrightarrow>
   tracked (native e) params w \<Longrightarrow> \<exists>params1. tracked (native e) params1 w'"
proof (induction fs arbitrary: params for_all w res w')
  case Nil
  then show ?case by auto
next
  case (Cons f rest)
  obtain st w1 where ro: "read_one e app_name g RAW several f params for_all w = (st, w1)"
    by (cases "read_one e app_name g RAW several f params for_all w")
  note s1 = read_one_tracked[OF ro Cons.prems(2)]
  show ?case
  proof (cases st)
    case (Stop out1)
    then have "w' = w1" using Cons.prems(1) ro by auto
    then show ?thesis using s1 Stop by auto
  next
    case (Yield d params1 for_all1)
    obtain r2 w2 where ra:
      "read_all e app_name g RAW several rest params1 for_all1 w1 = (r2, w2)"
      by (cases "read_all e app_name g RAW several rest params1 for_all1 w1")
    have w': "w' = w2" using Cons.prems(1) ro Yield ra by (auto split: prod.splits)
    have t1: "tracked (native e) params1 w1" using s1 Yield by simp
    from Cons.IH[OF ra t1] show ?thesis unfolding w' .
  qed
qed

lemma raw_setup_tracked:
  assumes "raw_setup e fs w = (q, w1)" and "tracked (native e) [] w"
  shows "case q of None \<Rightarrow> tracked (native e) [] w1
         | Some (RAW, params, for_all) \<Rightarrow> tracked (native e) params w1"
proof -
  obtain r w2 where ed: "nOpenParam_edit e w = (r, w2)" by (cases "nOpenParam_edit e w")
  from tracked_edit(2)[OF assms(2) ed] assms ed
  show ?thesis
    by (auto simp: raw_setup_def Let_def split: list.splits if_splits option.splits)
qed

lemma exec_images_open_dialog_tracked:
  "follows_forms (native e) []
     (events (snd (exec_images_open_dialog e basedir app_name to_grayscale dtype0 s0)))"
proof -
  let ?w1 = "(init_world s0)\<lparr>sys := s0\<lparr>sys_stdout := PyNone\<rparr>\<rparr>"
  obtain r1 w2 where cd: "call_dialog (GetOpenFileNames (tr e ''Open'') basedir dtype0)
                (getopenfilenames e (tr e ''Open'') basedir dtype0) ?w1 = (r1, w2)"
    by (cases "call_dialog (GetOpenFileNames (tr e ''Open'') basedir dtype0)
                (getopenfilenames e (tr e ''Open'') basedir dtype0) ?w1")
  have ev2: "events w2 = [GetOpenFileNames (tr e ''Open'') basedir dtype0]"
    using cd by (auto simp: call_dialog_def init_world_def emit_def events_def Let_def
        split: prod.splits)
  show ?thesis
  proof (cases r1)
    case (Inl exn)
    then show ?thesis using cd ev2 by (simp add: exec_images_open_dialog_def Let_def)
  next
    case (Inr filenames)
    let ?w3 = "w2\<lparr>sys := s0\<rparr>"
    have w3: "tracked (native e) [] ?w3"
      using ev2 by (simp add: tracked_def events_sys_update)
    obtain q w4 where rs: "raw_setup e filenames ?w3 = (q, w4)"
      by (cases "raw_setup e filenames ?w3")
    note s4 = raw_setup_tracked[OF rs w3]
    show ?thesis
    proof (cases q)
      case None
      then show ?thesis
        using cd Inr rs s4 by (simp add: exec_images_open_dialog_def Let_def tracked_def)
    next
      case (Some t)
      obtain RAW params for_all where t: "t = (RAW, params, for_all)" by (cases t)
      obtain r w' where ra: "read_all e app_name to_grayscale RAW (length filenames > 1)
                    filenames params for_all w4 = (r, w')"
        by (cases "read_all e app_name to_grayscale RAW (length filenames > 1)
                    filenames params for_all w4")
      have t4: "tracked (native e) params w4" using s4 Some t by simp
      from read_all_tracked[OF ra t4] show ?thesis
        using cd Inr rs Some t ra by (auto simp: exec_images_open_dialog_def Let_def tracked_def)
    qed
  qed
qed

text \<open>
  Claim C7. Whenever a raw-parameter form is accepted, each \<open>io.imread\<close> called after it
  and before another form is accepted is given a dictionary \<open>params\<close> in which \<open>offset\<close>
  is the form's \<open>m_offset\<close> when \<open>manual_switch\<close> is true and the name of the chosen
  offset mode otherwise, and \<open>dtype\<close> is the numpy dtype of the form's dtype choice, with
  its byte order swapped exactly when \<open>endian_switch\<close> is false.
\<close>

theorem imread_gets_params_of_last_form:
  assumes "events (snd (exec_images_open_dialog e basedir app_name to_grayscale dtype0 s0)) =
             before @ ev # mid @ ImRead f g ps # after"
    and "accepted_form ev = Some param"
    and "List.map_filter accepted_form mid = []"
  shows "\<exists>offset dt.
           ps = Some [(''offset'', offset), (''dtype'', PyDtype dt)] \<and>
           offset = (if manual_switch param then PyInt (m_offset param)
                     else PyStr (offset_name (mode param))) \<and>
           dt = (if endian_switch param then np_dtype (native e) (dtype param)
                 else newbyteorder (np_dtype (native e) (dtype param))) \<and>
           (byteorder dt \<noteq> byteorder (np_dtype (native e) (dtype param))) =
             (\<not> endian_switch param)"
proof -
  let ?m = "native e"
  have "follows_forms ?m [] (before @ ev # mid @ ImRead f g ps # after)"
    using exec_images_open_dialog_tracked[of e basedir app_name to_grayscale dtype0 s0] assms(1)
    by simp
  then have "follows_forms ?m (params_in_force ?m [] (before @ ev # mid)) (ImRead f g ps # after)"
    using follows_forms_append[of ?m "[]" "before @ ev # mid" "ImRead f g ps # after"] by simp
  moreover have "params_in_force ?m [] (before @ ev # mid) = raw_params ?m param"
    using assms(2,3) by (simp add: params_in_force_append params_in_force_no_form)
  ultimately have ps: "ps = Some (raw_params ?m param)" by simp
  have sw: "byteorder (newbyteorder (np_dtype ?m (dtype param))) \<noteq>
            byteorder (np_dtype ?m (dtype param))"
    by (cases ?m; cases "dtype param") simp_all
  show ?thesis
    using ps sw by (simp add: raw_params_def)
qed

text \<open>
  The theorem at two files read after the form \<open>swapped_form\<close> on a little-endian
  machine: both reads are given the offset \<open>from_end_4k\<close> and the big-endian uint16.
\<close>

theorem imread_gets_params_of_last_form_witness:
  "events (snd (exec_images_open_dialog
                  (images_env [''/data/a.raw'', ''/data/b.png''] [] swapped_form)
                  ''/data'' None True None streams0)) =
     [GetOpenFileNames ''Open'' ''/data'' None,
      EditnOpenParam ''Open Raw Images'' (swapped_form 0),
      ImRead ''/data/a.raw'' True
        (Some [(''offset'', PyStr ''from_end_4k''),
               (''dtype'', PyDtype (DType BigEndian (CHR ''u'') 2))]),
      ImRead ''/data/b.png'' True
        (Some [(''offset'', PyStr ''from_end_4k''),
               (''dtype'', PyDtype (DType BigEndian (CHR ''u'') 2))])]"
proof -
  let ?e = "images_env [''/data/a.raw'', ''/data/b.png''] [] swapped_form"
  let ?evs = "events (snd (exec_images_open_dialog ?e ''/data'' None True None streams0))"
  obtain ps1 ps2 where h1: "?evs =
      [GetOpenFileNames ''Open'' ''/data'' None] @ EditnOpenParam ''Open Raw Images'' (swapped_form 0) #
      [ImRead ''/data/a.raw'' True ps1] @ ImRead ''/data/b.png'' True ps2 # []"
    by (simp add: run_defs)
  have h1a: "?evs =
      [GetOpenFileNames ''Open'' ''/data'' None] @ EditnOpenParam ''Open Raw Images'' (swapped_form 0) #
      [] @ ImRead ''/data/a.raw'' True ps1 # [ImRead ''/data/b.png'' True ps2]"
    using h1 by simp
  have h2: "accepted_form (EditnOpenParam ''Open Raw Images'' (swapped_form 0)) =
              Some \<lparr>dtype = UInt16, mode = From_end_4k, endian_switch = False,
                    manual_switch = False, m_offset = 0\<rparr>"
    by (simp add: swapped_form_def OpenParam.truncate_def)
  have h3: "List.map_filter accepted_form [ImRead ''/data/a.raw'' True ps1] = []"
    by (simp add: List.map_filter_simps)
  have h3a: "List.map_filter accepted_form [] = []"
    by (simp add: List.map_filter_simps)
  have n: "native ?e = Little" by (simp add: images_env_def quiet_env_def)
  show ?thesis
    using imread_gets_params_of_last_form[OF h1 h2 h3] imread_gets_params_of_last_form[OF h1a h2 h3a]
      h1 n
    by (auto simp: raw_params_def)
qed

end
